theory Spec2Isabelle
  imports Complex_Main
begin

section \<open>JavaScript values used by the dashboard\<close>

text \<open>
  A JavaScript string is the list of its UTF-16 code units, each a natural number.
  \<open>js\<close> turns an ASCII literal of this theory into such a list.
\<close>

type_synonym js_string = "nat list"

definition js :: "string \<Rightarrow> js_string" where
  "js s = map of_char s"

text \<open>
  A JavaScript number is a finite value or NaN. Finite values are reals; the two zeros
  are one value here, and both are falsy in JavaScript. Rounding to a double is not
  modelled: it never turns a non-zero integer into zero.
\<close>

datatype js_number = Num real | NaN

text \<open>
  The values the type \<open>boolean | number | string | undefined\<close> of
  \<open>getOrderStatus\<close>'s parameter admits.
\<close>

datatype js_value = Undefined | JBool bool | JNum js_number | JStr js_string

text \<open>ToBoolean.\<close>

fun truthy :: "js_value \<Rightarrow> bool" where
  "truthy Undefined = False"
| "truthy (JBool b) = b"
| "truthy (JNum NaN) = False"
| "truthy (JNum (Num x)) = (x \<noteq> 0)"
| "truthy (JStr s) = (s \<noteq> [])"

text \<open>
  The code units of StrWhiteSpaceChar (WhiteSpace and LineTerminator of ECMAScript):
  TAB, LF, VT, FF, CR, SP, NBSP, the category Zs, LS, PS and the byte order mark.
  \<open>String.prototype.trim\<close> and \<open>parseInt\<close> both skip exactly these.
\<close>

definition isWhiteSpace :: "nat \<Rightarrow> bool" where
  "isWhiteSpace c =
     (c = 9 \<or> c = 10 \<or> c = 11 \<or> c = 12 \<or> c = 13 \<or> c = 32 \<or> c = 160 \<or> c = 5760 \<or>
      (8192 \<le> c \<and> c \<le> 8202) \<or> c = 8232 \<or> c = 8233 \<or> c = 8239 \<or> c = 8287 \<or>
      c = 12288 \<or> c = 65279)"

definition trim :: "js_string \<Rightarrow> js_string" where
  "trim s = rev (dropWhile isWhiteSpace (rev (dropWhile isWhiteSpace s)))"

definition isDigit :: "nat \<Rightarrow> bool" where
  "isDigit c = (48 \<le> c \<and> c \<le> 57)"

text \<open>The value of a run of decimal digits, most significant first.\<close>

definition digitsValue :: "nat list \<Rightarrow> nat" where
  "digitsValue ds = foldl (\<lambda>acc c. 10 * acc + (c - 48)) 0 ds"

text \<open>
  \<open>parseInt(s, 10)\<close>: skip leading white space, read one optional sign, then the
  longest run of decimal digits; no digit gives NaN. With radix 10 no \<open>0x\<close> prefix is
  stripped.
\<close>

definition digitRun :: "js_string \<Rightarrow> js_string" where
  "digitRun s =
     (let t = dropWhile isWhiteSpace s;
          u = (case t of [] \<Rightarrow> [] | c # r \<Rightarrow> if c = 43 \<or> c = 45 then r else t)
      in takeWhile isDigit u)"

definition parseInt :: "js_string \<Rightarrow> js_number" where
  "parseInt s =
     (let t = dropWhile isWhiteSpace s;
          neg = (case t of [] \<Rightarrow> False | c # _ \<Rightarrow> c = 45);
          z = digitRun s
      in if z = [] then NaN
         else Num (if neg then - real (digitsValue z) else real (digitsValue z)))"

text \<open>\<open>Number.prototype.toString\<close> on the values \<open>getHours\<close> and \<open>getMinutes\<close> return.\<close>

fun digitsOf :: "nat \<Rightarrow> js_string" where
  "digitsOf n = (if n < 10 then [48 + n] else digitsOf (n div 10) @ [48 + n mod 10])"

text \<open>\<open>s.padStart(n, c)\<close> for a one-unit pad string.\<close>

definition padStart :: "nat \<Rightarrow> nat \<Rightarrow> js_string \<Rightarrow> js_string" where
  "padStart n c s = replicate (n - length s) c @ s"

section \<open>The HTTP client (utils/fetch.ts)\<close>

text \<open>A parsed JSON document, the result of \<open>response.json()\<close>.\<close>

datatype json =
    JsNull
  | JsBool bool
  | JsNumber real
  | JsString js_string
  | JsArray "json list"
  | JsObject "(js_string \<times> json) list"

text \<open>
  Reading a property of a value that is not null: only an object has the properties
  \<open>code\<close>, \<open>msg\<close> and \<open>data\<close>; everything else gives \<open>undefined\<close>, here \<open>None\<close>.
\<close>

fun getProp :: "json \<Rightarrow> js_string \<Rightarrow> json option" where
  "getProp (JsObject fs) k = map_of fs k"
| "getProp _ k = None"

fun json_truthy :: "json \<Rightarrow> bool" where
  "json_truthy JsNull = False"
| "json_truthy (JsBool b) = b"
| "json_truthy (JsNumber x) = (x \<noteq> 0)"
| "json_truthy (JsString s) = (s \<noteq> [])"
| "json_truthy (JsArray xs) = True"
| "json_truthy (JsObject fs) = True"

text \<open>\<open>typeof v !== 'object'\<close>; null, arrays and objects are of type object.\<close>

fun notObject :: "json \<Rightarrow> bool" where
  "notObject (JsBool b) = True"
| "notObject (JsNumber x) = True"
| "notObject (JsString s) = True"
| "notObject _ = False"

text \<open>
  The message of a \<open>FetchError\<close>, one constructor per literal or template of the
  source: the empty URL (line 125), \<open>request error: status statusText\<close> (line 186),
  \<open>server error: status statusText\<close> (line 194), the response format error (line 221),
  \<open>result.msg\<close> and \<open>API Error: code\<close> (line 232), the timeout (line 266), the
  wrapped \<open>error.message\<close> (line 272), the unknown error (line 275) and the request
  failure (line 283).
\<close>

datatype fe_message =
    UrlEmpty
  | RequestError nat js_string
  | ServerError nat js_string
  | BadFormat
  | ApiMsg json
  | ApiErrorCode "json option"
  | RequestTimeout
  | Wrapped js_string
  | UnknownError
  | RequestFailed

record FetchError =
  fe_message :: fe_message
  fe_code :: "json option"
  fe_status :: "nat option"
  fe_requestId :: js_string
  isNetworkError :: bool

text \<open>
  What the environment throws: an \<open>Error\<close> instance with its name and message (a
  rejected \<open>fetch\<close>, an abort, a JSON syntax error, a TypeError), or a value that is not
  an \<open>Error\<close>. What the \<open>catch\<close> of \<open>request\<close> sees is one of these or a
  \<open>FetchError\<close> of its own.
\<close>

datatype exn = JsError js_string js_string | NonError

datatype thrown = Typed FetchError | Foreign exn

record Response =
  resp_status :: nat
  statusText :: js_string
  contentType :: "js_string option"
  body_text :: "exn + js_string"
  body_json :: "exn + json"

definition ok :: "Response \<Rightarrow> bool" where
  "ok r = (200 \<le> resp_status r \<and> resp_status r \<le> 299)"

text \<open>What \<open>request\<close> returns: the text, the parsed body, or the envelope's \<open>data\<close>.\<close>

datatype payload = TextBody js_string | JsonBody json | Data "json option"

text \<open>
  The options \<open>request\<close> reads in its retry loop, with the defaults of lines 84 to 86.
  The timeout shows only through the abort the transport reports.
\<close>

record FetchOptions =
  unwrap :: bool
  retry :: int
  retryDelay :: nat

definition defaultOptions :: FetchOptions where
  "defaultOptions = \<lparr> unwrap = True, retry = 3, retryDelay = 1000 \<rparr>"

text \<open>\<open>s.includes(p)\<close>.\<close>

fun str_includes :: "js_string \<Rightarrow> js_string \<Rightarrow> bool" where
  "str_includes [] p = (p = [])"
| "str_includes (c # s) p = (take (length p) (c # s) = p \<or> str_includes s p)"

text \<open>
  \<open>toLowerCase\<close> on the letters A to Z. No other code unit lower-cases to a letter of
  \<open>timeout\<close> alone, so the test of line 299 reads the same.
\<close>

definition toLowerCase :: "js_string \<Rightarrow> js_string" where
  "toLowerCase s = map (\<lambda>c. if 65 \<le> c \<and> c \<le> 90 then c + 32 else c) s"

definition messageMatches :: "js_string \<Rightarrow> bool" where
  "messageMatches m =
     (str_includes m (js ''fetch failed'') \<or>
      str_includes m (js ''network'') \<or>
      str_includes (toLowerCase m) (js ''timeout'') \<or>
      str_includes m (js ''Failed to fetch'') \<or>
      str_includes m (js ''NetworkError'') \<or>
      str_includes m (js ''ECONNREFUSED'') \<or>
      str_includes m (js ''ENOTFOUND''))"

text \<open>\<open>isRetryableError\<close>, lines 289 to 307.\<close>

fun isRetryableError :: "thrown \<Rightarrow> bool" where
  "isRetryableError (Typed e) = isNetworkError e"
| "isRetryableError (Foreign (JsError n m)) = messageMatches m"
| "isRetryableError (Foreign NonError) = False"

definition isSuccess :: "json option \<Rightarrow> bool" where
  "isSuccess code =
     (code = Some (JsNumber 0) \<or> code = Some (JsNumber 200) \<or>
      code = Some (JsString (js ''0'')) \<or> code = Some (JsString (js ''200'')) \<or>
      code = Some (JsString (js ''success'')))"

text \<open>
  Lines 217 to 239, the unwrapping of a parsed body. \<open>nullMsg\<close> is the message of the
  engine's TypeError for reading \<open>code\<close> of null, \<open>rid\<close> the request id.
\<close>

definition unwrapResult :: "js_string \<Rightarrow> js_string \<Rightarrow> nat \<Rightarrow> json \<Rightarrow> thrown + payload" where
  "unwrapResult nullMsg rid st result =
     (if json_truthy result \<and> notObject result then
        Inl (Typed \<lparr> fe_message = BadFormat, fe_code = None, fe_status = Some st,
                     fe_requestId = rid, isNetworkError = False \<rparr>)
      else if result = JsNull then Inl (Foreign (JsError (js ''TypeError'') nullMsg))
      else
        let code = getProp result (js ''code'') in
        if \<not> isSuccess code then
          Inl (Typed \<lparr> fe_message =
                         (case getProp result (js ''msg'') of
                            None \<Rightarrow> ApiErrorCode code
                          | Some m \<Rightarrow> if json_truthy m then ApiMsg m else ApiErrorCode code),
                       fe_code = code, fe_status = Some st,
                       fe_requestId = rid, isNetworkError = False \<rparr>)
        else Inr (Data (getProp result (js ''data''))))"

text \<open>Lines 202 to 241, the reading of the body of an ok response.\<close>

definition readBody :: "FetchOptions \<Rightarrow> js_string \<Rightarrow> js_string \<Rightarrow> Response \<Rightarrow> thrown + payload" where
  "readBody opts nullMsg rid r =
     (if (case contentType r of None \<Rightarrow> True
          | Some ct \<Rightarrow> \<not> str_includes ct (js ''application/json'')) then
        (if unwrap opts then
           (case body_text r of Inl e \<Rightarrow> Inl (Foreign e) | Inr t \<Rightarrow> Inr (TextBody t))
         else
           (case body_json r of Inl e \<Rightarrow> Inl (Foreign e) | Inr j \<Rightarrow> Inr (JsonBody j)))
      else
        (case body_json r of
           Inl e \<Rightarrow> Inl (Foreign e)
         | Inr result \<Rightarrow>
             if unwrap opts then unwrapResult nullMsg rid (resp_status r) result
             else Inr (JsonBody result)))"

text \<open>
  The \<open>try\<close> block of one attempt, lines 166 to 241. The argument is what the call of
  \<open>fetch\<close> settled with: a rejection or a response.
\<close>

definition tryAttempt ::
  "FetchOptions \<Rightarrow> js_string \<Rightarrow> js_string \<Rightarrow> exn + Response \<Rightarrow> thrown + payload" where
  "tryAttempt opts nullMsg rid outcome =
     (case outcome of
        Inl e \<Rightarrow> Inl (Foreign e)
      | Inr r \<Rightarrow>
          if \<not> ok r then
            (if 400 \<le> resp_status r \<and> resp_status r < 500 then
               Inl (Typed \<lparr> fe_message = RequestError (resp_status r) (statusText r),
                            fe_code = None, fe_status = Some (resp_status r),
                            fe_requestId = rid, isNetworkError = False \<rparr>)
             else
               Inl (Typed \<lparr> fe_message = ServerError (resp_status r) (statusText r),
                            fe_code = None, fe_status = Some (resp_status r),
                            fe_requestId = rid, isNetworkError = True \<rparr>))
          else readBody opts nullMsg rid r)"

text \<open>Lines 263 to 275: the error an attempt that is not retried ends with.\<close>

fun finalError :: "js_string \<Rightarrow> thrown \<Rightarrow> FetchError" where
  "finalError rid (Typed e) = e"
| "finalError rid (Foreign (JsError n m)) =
     (if n = js ''AbortError'' then
        \<lparr> fe_message = RequestTimeout, fe_code = None, fe_status = None,
          fe_requestId = rid, isNetworkError = False \<rparr>
      else
        \<lparr> fe_message = Wrapped m, fe_code = None, fe_status = None,
          fe_requestId = rid, isNetworkError = True \<rparr>)"
| "finalError rid (Foreign NonError) =
     \<lparr> fe_message = UnknownError, fe_code = None, fe_status = None,
       fe_requestId = rid, isNetworkError = True \<rparr>"

text \<open>What the client did, in order: the attempts it made and the delays it slept.\<close>

datatype req_event = Fetched nat | Slept nat

fun typedNotNetwork :: "thrown \<Rightarrow> bool" where
  "typedNotNetwork (Typed e) = (\<not> isNetworkError e)"
| "typedNotNetwork (Foreign x) = False"

text \<open>
  The retry loop, lines 161 to 283. \<open>transport i\<close> is what the \<open>fetch\<close> of attempt
  \<open>i\<close> settles with; the result comes with the trace of the attempts and sleeps.
\<close>

function requestLoop ::
  "FetchOptions \<Rightarrow> js_string \<Rightarrow> js_string \<Rightarrow> (nat \<Rightarrow> exn + Response) \<Rightarrow> nat \<Rightarrow>
   thrown option \<Rightarrow> req_event list \<Rightarrow> (FetchError + payload) \<times> req_event list" where
  "requestLoop opts nullMsg rid transport attempt lastError trace =
     (if int attempt \<le> retry opts then
        (case tryAttempt opts nullMsg rid (transport attempt) of
           Inr p \<Rightarrow> (Inr p, trace @ [Fetched attempt])
         | Inl error \<Rightarrow>
             if typedNotNetwork error then
               (Inl (finalError rid error), trace @ [Fetched attempt])
             else if int attempt < retry opts \<and> isRetryableError error then
               requestLoop opts nullMsg rid transport (Suc attempt) (Some error)
                 (trace @ [Fetched attempt, Slept (retryDelay opts)])
             else (Inl (finalError rid error), trace @ [Fetched attempt]))
      else
        (case lastError of
           Some (Typed e) \<Rightarrow> (Inl e, trace)
         | _ \<Rightarrow>
             (Inl \<lparr> fe_message = RequestFailed, fe_code = None, fe_status = None,
                    fe_requestId = rid, isNetworkError = True \<rparr>, trace)))"
  by pat_completeness auto
termination
  by (relation "measure (\<lambda>(opts, nullMsg, rid, transport, attempt, lastError, trace).
        nat (retry opts + 1 - int attempt))") auto

declare requestLoop.simps [simp del]

text \<open>\<open>request\<close>, lines 117 to 284, for a URL that is a string.\<close>

definition request ::
  "FetchOptions \<Rightarrow> js_string \<Rightarrow> js_string \<Rightarrow> js_string \<Rightarrow> (nat \<Rightarrow> exn + Response) \<Rightarrow>
   (FetchError + payload) \<times> req_event list" where
  "request opts nullMsg rid url transport =
     (if url = [] then
        (Inl \<lparr> fe_message = UrlEmpty, fe_code = None, fe_status = None,
               fe_requestId = rid, isNetworkError = False \<rparr>, [])
      else requestLoop opts nullMsg rid transport 0 None [])"

section \<open>Data transformation (DispatchPage.tsx)\<close>

text \<open>
  \<open>new Date(timeStr)\<close> read through \<open>getHours\<close> and \<open>getMinutes\<close>: a valid date
  gives the local hour and minute, an unparseable string gives the Invalid Date, whose
  getters return NaN. The constructor never throws on a string. Which strings parse is
  the engine's business, so the parser is a parameter of \<open>formatTime\<close>.
\<close>

datatype js_date = ValidDate nat nat | InvalidDate

text \<open>\<open>None\<close> stands for NaN.\<close>

fun getHours :: "js_date \<Rightarrow> nat option" where
  "getHours (ValidDate h m) = Some h"
| "getHours InvalidDate = None"

fun getMinutes :: "js_date \<Rightarrow> nat option" where
  "getMinutes (ValidDate h m) = Some m"
| "getMinutes InvalidDate = None"

fun toString :: "nat option \<Rightarrow> js_string" where
  "toString None = js ''NaN''"
| "toString (Some n) = digitsOf n"

text \<open>
  \<open>formatTime\<close>, lines 86 to 96. The argument is \<open>None\<close> for an absent timestamp.
  Nothing inside the \<open>try\<close> block can throw, so the \<open>catch\<close> branch has no
  counterpart here.
\<close>

definition formatTime :: "(js_string \<Rightarrow> js_date) \<Rightarrow> js_string option \<Rightarrow> js_string" where
  "formatTime newDate timeStr =
     (case timeStr of
        None \<Rightarrow> js ''-''
      | Some t \<Rightarrow>
          if t = [] then js ''-''
          else
            let date = newDate t;
                hours = padStart 2 48 (toString (getHours date));
                minutes = padStart 2 48 (toString (getMinutes date))
            in hours @ js '':'' @ minutes)"

datatype OrderStatus = Shipped | Pending | Delayed

datatype OrderRisk = Low | Medium | High | NoRisk

text \<open>\<open>getRiskLevel\<close>, lines 99 to 111.\<close>

definition getRiskLevel :: "js_string option \<Rightarrow> OrderRisk" where
  "getRiskLevel riskFlag =
     (if riskFlag = Some (js ''DELAYED'') then High
      else if riskFlag = Some (js ''AT_RISK'') then Medium
      else NoRisk)"

text \<open>\<open>getOrderStatus\<close>, lines 114 to 121.\<close>

definition getOrderStatus :: "js_value \<Rightarrow> OrderStatus" where
  "getOrderStatus isDelivered =
     (case isDelivered of
        JBool b \<Rightarrow> if b then Shipped else Pending
      | _ \<Rightarrow>
          let v = (case isDelivered of JStr s \<Rightarrow> JNum (parseInt s) | _ \<Rightarrow> isDelivered)
          in if truthy v then Shipped else Pending)"

text \<open>
  \<open>DispatchBoardFlightVO\<close> (api/types.ts), the fields the page reads. An optional
  field is an option; \<open>isDelivered\<close> is declared boolean but arrives as a boolean, a
  number or a string, which is what \<open>getOrderStatus\<close> accepts.
\<close>

record DispatchBoardFlightVO =
  sheetNo :: "js_string option"
  supplyType :: "js_string option"
  deliveryRecName :: "js_string option"
  lastRecRequireTime :: "js_string option"
  isDelivered :: js_value
  hasReceipt :: "bool option"
  riskFlag :: "js_string option"

record Order =
  order_id :: js_string
  order_type :: js_string
  receiver :: js_string
  requestTime :: js_string
  status :: OrderStatus
  hasReturn :: bool
  risk :: OrderRisk
  order_riskFlag :: "js_string option"

record Alert =
  alert_id :: js_string
  message :: js_string
  timestamp :: js_string

record Summary =
  totalCount :: nat
  deliveredCount :: nat
  pendingCount :: nat
  delayedCount :: nat
  receiptCount :: nat

text \<open>\<open>x || d\<close> on an optional string: the default replaces an absent or empty one.\<close>

definition orElse :: "js_string option \<Rightarrow> js_string \<Rightarrow> js_string" where
  "orElse x d = (case x of None \<Rightarrow> d | Some s \<Rightarrow> if s = [] then d else s)"

definition toOrder :: "(js_string \<Rightarrow> js_date) \<Rightarrow> DispatchBoardFlightVO \<Rightarrow> Order" where
  "toOrder newDate r =
     \<lparr> order_id = orElse (sheetNo r) [],
       order_type = orElse (supplyType r) (js ''-''),
       receiver = orElse (deliveryRecName r) (js ''-''),
       requestTime = formatTime newDate (lastRecRequireTime r),
       status = getOrderStatus (isDelivered r),
       hasReturn = (hasReceipt r = Some True),
       risk = getRiskLevel (riskFlag r),
       order_riskFlag = riskFlag r \<rparr>"

text \<open>\<open>transformOrders\<close>, lines 124 to 135.\<close>

definition transformOrders :: "(js_string \<Rightarrow> js_date) \<Rightarrow> DispatchBoardFlightVO list \<Rightarrow> Order list" where
  "transformOrders newDate records = map (toOrder newDate) records"

text \<open>The literal of line 144, five code units.\<close>

definition ALERT_MESSAGE :: js_string where
  "ALERT_MESSAGE = [36229, 26102, 26410, 21457, 36135]"

text \<open>The filter of lines 140 and 201: \<open>r.riskFlag === 'DELAYED' && !r.hasReceipt\<close>.\<close>

definition isDelayedNoReceipt :: "DispatchBoardFlightVO \<Rightarrow> bool" where
  "isDelayedNoReceipt r = (riskFlag r = Some (js ''DELAYED'') \<and> hasReceipt r \<noteq> Some True)"

definition toAlert :: "(js_string \<Rightarrow> js_date) \<Rightarrow> DispatchBoardFlightVO \<Rightarrow> Alert" where
  "toAlert newDate r =
     \<lparr> alert_id = orElse (sheetNo r) [],
       message = ALERT_MESSAGE,
       timestamp = formatTime newDate (lastRecRequireTime r) \<rparr>"

text \<open>\<open>transformAlerts\<close>, lines 138 to 147: filter, \<open>slice(0, 8)\<close>, map.\<close>

definition transformAlerts :: "(js_string \<Rightarrow> js_date) \<Rightarrow> DispatchBoardFlightVO list \<Rightarrow> Alert list" where
  "transformAlerts newDate records =
     map (toAlert newDate) (take 8 (filter isDelayedNoReceipt records))"

section \<open>The refresh orchestrator (DispatchPage.tsx)\<close>

text \<open>\<open>DispatchBoardFetchResult\<close>; the page reads \<open>content\<close>, always an array.\<close>

record DispatchBoardFetchResult =
  content :: "DispatchBoardFlightVO list"
  totalElements :: nat

text \<open>
  The state of the page: the React state slices, the ref of the polling timer
  (\<open>None\<close> is null), and the browser's table of running \<open>setInterval\<close> timers whose
  callback is \<open>loadData\<close>, each with its handle and its delay in milliseconds.
\<close>

record PageState =
  orders :: "Order list"
  summary :: Summary
  alerts :: "Alert list"
  pendingWithReceiptCount :: nat
  loading :: bool
  lastUpdateTime :: js_string
  factoryName :: js_string
  factoryCode :: js_string
  tableRefreshKey :: nat
  trendsRefreshKey :: nat
  refreshTimerRef :: "nat option"
  intervals :: "(nat \<times> nat) list"

definition initialPage :: PageState where
  "initialPage =
     \<lparr> orders = [],
       summary = \<lparr> totalCount = 0, deliveredCount = 0, pendingCount = 0,
                   delayedCount = 0, receiptCount = 0 \<rparr>,
       alerts = [], pendingWithReceiptCount = 0, loading = True, lastUpdateTime = [],
       factoryName = [], factoryCode = [], tableRefreshKey = 0, trendsRefreshKey = 0,
       refreshTimerRef = None, intervals = [] \<rparr>"

definition NO_DATA_REFRESH_INTERVAL :: nat where
  "NO_DATA_REFRESH_INTERVAL = 5 * 60 * 1000"

text \<open>\<open>if (refreshTimerRef.current)\<close>: null and 0 are falsy.\<close>

definition timerSet :: "nat option \<Rightarrow> bool" where
  "timerSet ref = (case ref of None \<Rightarrow> False | Some h \<Rightarrow> h \<noteq> 0)"

definition clearInterval :: "nat option \<Rightarrow> (nat \<times> nat) list \<Rightarrow> (nat \<times> nat) list" where
  "clearInterval ref ivs = (case ref of None \<Rightarrow> ivs | Some h \<Rightarrow> filter (\<lambda>iv. fst iv \<noteq> h) ivs)"

text \<open>Lines 199 to 212.\<close>

definition toSummary :: "DispatchBoardFlightVO list \<Rightarrow> Summary" where
  "toSummary records =
     (let delivered = length (filter (\<lambda>r. truthy (isDelivered r)) records) in
      \<lparr> totalCount = length records,
        deliveredCount = delivered,
        pendingCount = length records - delivered,
        delayedCount = length (filter isDelayedNoReceipt records),
        receiptCount = length (filter (\<lambda>r. hasReceipt r = Some True) records) \<rparr>)"

text \<open>Lines 202 to 204: \<open>r.hasReceipt && r.isDelivered === false\<close>.\<close>

definition pendingWithReceipt :: "DispatchBoardFlightVO list \<Rightarrow> nat" where
  "pendingWithReceipt records =
     length (filter (\<lambda>r. hasReceipt r = Some True \<and> isDelivered r = JBool False) records)"

text \<open>
  Lines 216 to 232, the refresh policy. \<open>h\<close> is the handle \<open>window.setInterval\<close>
  returns when it is called.
\<close>

definition adjustTimer :: "nat \<Rightarrow> bool \<Rightarrow> PageState \<Rightarrow> PageState" where
  "adjustTimer h hasData s =
     (if \<not> hasData then
        s\<lparr> intervals :=
             (if timerSet (refreshTimerRef s) then clearInterval (refreshTimerRef s) (intervals s)
              else intervals s) @ [(h, NO_DATA_REFRESH_INTERVAL)],
           refreshTimerRef := Some h \<rparr>
      else if timerSet (refreshTimerRef s) then
        s\<lparr> intervals := clearInterval (refreshTimerRef s) (intervals s),
           refreshTimerRef := None \<rparr>
      else s)"

text \<open>
  \<open>loadData\<close>, lines 174 to 248, from the state its continuation after the
  \<open>await\<close> finds. \<open>outcome\<close> is what \<open>fetchDispatchBoard\<close> settled with (it
  rethrows what the HTTP client threw), \<open>nowTime\<close> the
  localized wall-clock time of line 237. A rejection goes to the \<open>catch\<close>, which
  logs; \<open>finally\<close> clears the loading flag.
\<close>

definition loadData ::
  "(js_string \<Rightarrow> js_date) \<Rightarrow> js_string \<Rightarrow> nat \<Rightarrow> thrown + DispatchBoardFetchResult \<Rightarrow>
   PageState \<Rightarrow> PageState" where
  "loadData newDate nowTime h outcome s =
     (case outcome of
        Inl err \<Rightarrow> s\<lparr> loading := False \<rparr>
      | Inr result \<Rightarrow>
          let records = content result;
              transformedOrders = transformOrders newDate records;
              s1 = s\<lparr> orders := transformedOrders,
                      alerts := transformAlerts newDate records,
                      summary := toSummary records,
                      pendingWithReceiptCount := pendingWithReceipt records \<rparr>;
              s2 = adjustTimer h (0 < length transformedOrders) s1
          in s2\<lparr> lastUpdateTime := nowTime, loading := False \<rparr>)"

text \<open>\<open>handleTableRefresh\<close>, lines 271 to 275; the \<open>loadData\<close> it starts settles later.\<close>

definition handleTableRefresh :: "PageState \<Rightarrow> PageState" where
  "handleTableRefresh s =
     s\<lparr> tableRefreshKey := tableRefreshKey s + 1,
        trendsRefreshKey := trendsRefreshKey s + 1,
        loading := True \<rparr>"

text \<open>The cleanup of the mount effect, lines 259 to 263.\<close>

definition unmount :: "PageState \<Rightarrow> PageState" where
  "unmount s =
     (if timerSet (refreshTimerRef s)
      then s\<lparr> intervals := clearInterval (refreshTimerRef s) (intervals s) \<rparr> else s)"

text \<open>
  What happens to the page: a call of \<open>loadData\<close> settles (started at mount, by a
  timer or by the table), the table reaches its bottom, the page unmounts.
\<close>

datatype page_event =
    LoadSettled js_string nat "thrown + DispatchBoardFetchResult"
  | BottomReached
  | Unmounted

fun pageStep :: "(js_string \<Rightarrow> js_date) \<Rightarrow> PageState \<Rightarrow> page_event \<Rightarrow> PageState" where
  "pageStep newDate s (LoadSettled nowTime h outcome) = loadData newDate nowTime h outcome s"
| "pageStep newDate s BottomReached = handleTableRefresh s"
| "pageStep newDate s Unmounted = unmount s"

definition pageRun :: "(js_string \<Rightarrow> js_date) \<Rightarrow> page_event list \<Rightarrow> PageState \<Rightarrow> PageState" where
  "pageRun newDate es s = foldl (pageStep newDate) s es"

text \<open>A timer handle is an integer greater than zero (HTML, timers).\<close>

fun handlePositive :: "page_event \<Rightarrow> bool" where
  "handlePositive (LoadSettled nowTime h outcome) = (0 < h)"
| "handlePositive _ = True"

subsection \<open>The factory lookup\<close>

record FactoryInfo =
  fi_factoryCode :: "js_string option"
  fi_factoryName :: "js_string option"

text \<open>
  What the lookup resolves with: nothing (null or undefined), the info inside a
  \<open>data\<close> envelope, or the info itself.
\<close>

datatype factory_response = NoBody | Enveloped FactoryInfo | Bare FactoryInfo

text \<open>The literal of lines 165 and 169, U+2014.\<close>

definition EM_DASH :: js_string where
  "EM_DASH = [8212]"

text \<open>
  \<open>URLSearchParams.get\<close>: the value of the first pair with exactly that name, or
  null. The pairs are the decoded query string, in order.
\<close>

definition urlGet :: "(js_string \<times> js_string) list \<Rightarrow> js_string \<Rightarrow> js_string option" where
  "urlGet params name = map_of params name"

text \<open>\<open>a || b\<close> on two values that are a string or null; an empty string is falsy.\<close>

definition orOpt :: "js_string option \<Rightarrow> js_string option \<Rightarrow> js_string option" where
  "orOpt a b = (case a of None \<Rightarrow> b | Some x \<Rightarrow> if x = [] then b else a)"

text \<open>
  Lines 152 to 161. \<open>urlParams\<close> is \<open>None\<close> where there is no window, \<open>env\<close> the
  value of \<open>VITE_FACTORY_CODE\<close>.
\<close>

definition resolveFactoryCode ::
  "(js_string \<times> js_string) list option \<Rightarrow> js_string option \<Rightarrow> js_string" where
  "resolveFactoryCode urlParams env =
     (let factoryCodeFromUrl =
            (case urlParams of
               None \<Rightarrow> None
             | Some ps \<Rightarrow>
                 (case orOpt (urlGet ps (js ''factoryCode'')) (urlGet ps (js ''factorycode'')) of
                    None \<Rightarrow> None
                  | Some v \<Rightarrow> if v = [] then None else Some v))
      in orElse (orOpt (map_option trim factoryCodeFromUrl) env) (js ''DEFAULT_FACTORY_CODE''))"

text \<open>\<open>loadFactoryInfo\<close>, lines 150 to 171. \<open>api\<close> is \<open>getInfoByFactoryCodeApi\<close>.\<close>

definition loadFactoryInfo ::
  "(js_string \<times> js_string) list option \<Rightarrow> js_string option \<Rightarrow>
   (js_string \<Rightarrow> thrown + factory_response) \<Rightarrow> PageState \<Rightarrow> PageState" where
  "loadFactoryInfo urlParams env api s =
     (let code = resolveFactoryCode urlParams env in
      case api code of
        Inl err \<Rightarrow> s\<lparr> factoryName := EM_DASH \<rparr>
      | Inr NoBody \<Rightarrow> s\<lparr> factoryName := EM_DASH \<rparr>
      | Inr (Enveloped info) \<Rightarrow>
          s\<lparr> factoryName := orElse (fi_factoryName info) EM_DASH, factoryCode := code \<rparr>
      | Inr (Bare info) \<Rightarrow>
          s\<lparr> factoryName := orElse (fi_factoryName info) EM_DASH, factoryCode := code \<rparr>)"

section \<open>The receipt warning (ReceiptWarning.tsx)\<close>

text \<open>
  What the component renders: nothing, or the banner with the line about pending
  orders with a receipt (shown when that count is positive) and the off-system count.
\<close>

record WarningBanner =
  showsPendingLine :: bool
  offSystemShown :: nat

definition ReceiptWarning :: "nat \<Rightarrow> nat \<Rightarrow> nat \<Rightarrow> WarningBanner option" where
  "ReceiptWarning rc dc pc =
     (let showWarning = (0 < pc \<or> dc < rc) in
      if \<not> showWarning then None
      else Some \<lparr> showsPendingLine = (0 < pc), offSystemShown = rc - dc \<rparr>)"

section \<open>The scrolling table (ShippingTable.tsx)\<close>

text \<open>
  The state of the component: the props of the last render, the refs of lines 60 to 63,
  the state \<open>isAtBottom\<close>, the scroll offset of the container, and around them whether
  the container is in the document (\<open>containerRef.current\<close> is not null), the animation
  frames the browser still owes to \<open>animate\<close>, whether the last run of the effect left a
  cleanup, and how often \<open>onRefresh\<close> was called.
\<close>

record TableState =
  tbl_orders :: "Order list"
  autoScroll :: bool
  hasOnRefresh :: bool
  containerMounted :: bool
  scrollTop :: int
  scrollRef :: "nat option"
  shouldScrollRef :: bool
  isAtBottomRef :: bool
  isAtBottom :: bool
  frames :: "nat list"
  cleanupLeft :: bool
  refreshCalls :: nat

definition initialTable :: TableState where
  "initialTable =
     \<lparr> tbl_orders = [], autoScroll = True, hasOnRefresh = False, containerMounted = False,
       scrollTop = 0, scrollRef = None, shouldScrollRef = True, isAtBottomRef = False,
       isAtBottom = False, frames = [], cleanupLeft = False, refreshCalls = 0 \<rparr>"

definition SCROLL_SPEED :: int where
  "SCROLL_SPEED = 1"

definition BOTTOM_THRESHOLD :: int where
  "BOTTOM_THRESHOLD = 50"

text \<open>\<open>if (scrollRef.current) cancelAnimationFrame(scrollRef.current)\<close>.\<close>

definition cancelFrame :: "TableState \<Rightarrow> TableState" where
  "cancelFrame s =
     (case scrollRef s of
        None \<Rightarrow> s
      | Some h \<Rightarrow> if h = 0 then s else s\<lparr> frames := filter (\<lambda>k. k \<noteq> h) (frames s) \<rparr>)"

text \<open>
  Lines 74 to 77 and 108 to 111: the bottom is reached. \<open>onRefresh?.()\<close> calls the
  callback when there is one.
\<close>

definition reachBottom :: "TableState \<Rightarrow> TableState" where
  "reachBottom s =
     s\<lparr> shouldScrollRef := False, isAtBottomRef := True, isAtBottom := True,
        refreshCalls := (if hasOnRefresh s then refreshCalls s + 1 else refreshCalls s) \<rparr>"

text \<open>
  \<open>handleScroll\<close>, lines 67 to 79, with the \<open>scrollHeight\<close> and \<open>clientHeight\<close> it reads.
\<close>

definition handleScroll :: "int \<Rightarrow> int \<Rightarrow> TableState \<Rightarrow> TableState" where
  "handleScroll scrollHeight clientHeight s =
     (if \<not> containerMounted s \<or> \<not> shouldScrollRef s then s
      else
        let maxScroll = scrollHeight - clientHeight in
        if scrollTop s \<ge> maxScroll - BOTTOM_THRESHOLD then reachBottom s else s)"

text \<open>
  \<open>animate\<close>, lines 100 to 117. \<open>h\<close> is the handle the \<open>requestAnimationFrame\<close> of
  line 116 returns.
\<close>

definition animate :: "int \<Rightarrow> int \<Rightarrow> nat \<Rightarrow> TableState \<Rightarrow> TableState" where
  "animate scrollHeight clientHeight h s =
     (if \<not> containerMounted s \<or> \<not> shouldScrollRef s then s
      else
        let maxScroll = scrollHeight - clientHeight in
        if scrollTop s \<ge> maxScroll - BOTTOM_THRESHOLD then reachBottom s
        else s\<lparr> scrollTop := scrollTop s + SCROLL_SPEED,
                scrollRef := Some h, frames := frames s @ [h] \<rparr>)"

text \<open>
  The body of the effect, lines 82 to 127, for the props of the render it follows.
\<close>

definition effect :: "nat \<Rightarrow> TableState \<Rightarrow> TableState" where
  "effect h s =
     (if \<not> autoScroll s \<or> length (tbl_orders s) = 0 then s\<lparr> cleanupLeft := False \<rparr>
      else
        let s1 = cancelFrame s;
            s2 = s1\<lparr> shouldScrollRef := True, isAtBottomRef := False, isAtBottom := False \<rparr>;
            s3 = (if containerMounted s2 then s2\<lparr> scrollTop := 0 \<rparr> else s2)
        in s3\<lparr> scrollRef := Some h, frames := frames s3 @ [h], cleanupLeft := True \<rparr>)"

text \<open>
  A render with changed dependencies: the container is in the document exactly when
  the order list is not empty (lines 130 to 140), a container that enters starts at
  offset 0, the cleanup of the previous run cancels its frame, and the effect runs.
\<close>

definition render :: "Order list \<Rightarrow> bool \<Rightarrow> bool \<Rightarrow> nat \<Rightarrow> TableState \<Rightarrow> TableState" where
  "render ords auto cb h s =
     (let s1 = s\<lparr> tbl_orders := ords, autoScroll := auto, hasOnRefresh := cb,
                  containerMounted := (ords \<noteq> []),
                  scrollTop := (if containerMounted s \<and> ords \<noteq> [] then scrollTop s else 0) \<rparr>;
          s2 = (if cleanupLeft s1 then cancelFrame s1 else s1)
      in effect h s2)"

text \<open>
  What happens to the table: a render whose effect runs; the browser runs the frame
  callback with a handle, if it still owes it; a scroll event moves the container to an
  offset and calls \<open>handleScroll\<close>. A frame and a scroll event carry the heights read.
\<close>

datatype table_event =
    Render "Order list" bool bool nat
  | Frame nat int int nat
  | ScrollTo int int int

fun tableStep :: "TableState \<Rightarrow> table_event \<Rightarrow> TableState" where
  "tableStep s (Render ords auto cb h) = render ords auto cb h s"
| "tableStep s (Frame k scrollHeight clientHeight h) =
     (if k \<in> set (frames s)
      then animate scrollHeight clientHeight h (s\<lparr> frames := filter (\<lambda>j. j \<noteq> k) (frames s) \<rparr>)
      else s)"
| "tableStep s (ScrollTo pos scrollHeight clientHeight) =
     (if containerMounted s
      then handleScroll scrollHeight clientHeight (s\<lparr> scrollTop := pos \<rparr>)
      else s)"

definition tableRun :: "table_event list \<Rightarrow> TableState \<Rightarrow> TableState" where
  "tableRun es s = foldl tableStep s es"

text \<open>A render that resets the controller: it scrolls and has orders to show.\<close>

fun resets :: "table_event \<Rightarrow> bool" where
  "resets (Render ords auto cb h) = (auto \<and> ords \<noteq> [])"
| "resets _ = False"

text \<open>An event that leaves the order list empty.\<close>

fun keepsEmpty :: "table_event \<Rightarrow> bool" where
  "keepsEmpty (Render ords auto cb h) = (ords = [])"
| "keepsEmpty _ = True"

text \<open>An animation frame handle is an integer greater than zero (HTML, animation frames).\<close>

fun frameHandlesPositive :: "table_event \<Rightarrow> bool" where
  "frameHandlesPositive (Render ords auto cb h) = (0 < h)"
| "frameHandlesPositive (Frame k scrollHeight clientHeight h) = (0 < h)"
| "frameHandlesPositive _ = True"

text \<open>Lines 130 to 238: the empty state, or the table with its bottom indicator.\<close>

datatype table_view = EmptyState | TableView nat bool

definition view :: "TableState \<Rightarrow> table_view" where
  "view s =
     (if length (tbl_orders s) = 0 then EmptyState
      else TableView (length (tbl_orders s)) (isAtBottom s))"

section \<open>Notions the statements use\<close>

text \<open>
  The first \<open>n\<close> elements of a list that satisfy a predicate, in the order of the list,
  as the specification words the selection of the alerts.
\<close>

fun firstMatches :: "nat \<Rightarrow> ('a \<Rightarrow> bool) \<Rightarrow> 'a list \<Rightarrow> 'a list" where
  "firstMatches 0 P xs = []"
| "firstMatches (Suc n) P [] = []"
| "firstMatches (Suc n) P (x # xs) =
     (if P x then x # firstMatches n P xs else firstMatches (Suc n) P xs)"

text \<open>A delivered flag that is absent, a boolean or a number.\<close>

definition notString :: "js_value \<Rightarrow> bool" where
  "notString v = (case v of JStr x \<Rightarrow> False | _ \<Rightarrow> True)"

text \<open>
  The invariant of the polling timer: the ref never holds 0, and the only timer that
  can run is the one the ref names, with the no-data delay.
\<close>

definition timerInv :: "PageState \<Rightarrow> bool" where
  "timerInv s =
     (case refreshTimerRef s of
        None \<Rightarrow> intervals s = []
      | Some h \<Rightarrow> 0 < h \<and> (intervals s = [] \<or> intervals s = [(h, NO_DATA_REFRESH_INTERVAL)]))"

text \<open>A record with a delivered flag, a receipt flag and a risk flag, for examples.\<close>

definition sampleRecord :: "js_value \<Rightarrow> bool option \<Rightarrow> js_string option \<Rightarrow> DispatchBoardFlightVO" where
  "sampleRecord d r f =
     \<lparr> sheetNo = Some (js ''S1''), supplyType = None, deliveryRecName = None,
       lastRecRequireTime = None, isDelivered = d, hasReceipt = r, riskFlag = f \<rparr>"

text \<open>An event that does not reset the table controller: it stays in the scroll cycle.\<close>

definition staysInCycle :: "table_event \<Rightarrow> bool" where
  "staysInCycle e = (\<not> resets e)"

text \<open>The calls of the callback so far, plus the one the current cycle may still make.\<close>

definition budget :: "TableState \<Rightarrow> nat" where
  "budget s = refreshCalls s + (if shouldScrollRef s then 1 else 0)"

text \<open>
  The invariant of the table: the container is in the document exactly when there are
  orders, and the browser owes at most the one frame \<open>scrollRef\<close> names, which the
  cleanup of the effect will cancel.
\<close>

definition tableInv :: "TableState \<Rightarrow> bool" where
  "tableInv s =
     (containerMounted s = (tbl_orders s \<noteq> []) \<and>
      (frames s = [] \<or>
       (tbl_orders s \<noteq> [] \<and> cleanupLeft s \<and>
        (case scrollRef s of None \<Rightarrow> False | Some h \<Rightarrow> 0 < h \<and> frames s = [h]))))"

text \<open>The table with no orders, no container and no frame owed.\<close>

definition idle :: "TableState \<Rightarrow> bool" where
  "idle s = (tbl_orders s = [] \<and> \<not> containerMounted s \<and> frames s = [])"

text \<open>An order, for examples.\<close>

definition sampleOrder :: Order where
  "sampleOrder = toOrder (\<lambda>t. InvalidDate) (sampleRecord (JBool False) None None)"

text \<open>The attempts in a trace, and the retries: the attempts after the first.\<close>

fun isFetched :: "req_event \<Rightarrow> bool" where
  "isFetched (Fetched i) = True"
| "isFetched (Slept d) = False"

definition retries :: "req_event list \<Rightarrow> nat" where
  "retries trace = length (filter isFetched trace) - 1"

text \<open>
  The trace of a request that retries after each of the attempts \<open>a\<close> to \<open>n - 1\<close>,
  sleeping \<open>d\<close> milliseconds before each retry, and ends with attempt \<open>n\<close>.
\<close>

definition retryTrace :: "nat \<Rightarrow> nat \<Rightarrow> nat \<Rightarrow> req_event list" where
  "retryTrace d a n = concat (map (\<lambda>i. [Fetched i, Slept d]) [a..<n]) @ [Fetched n]"

text \<open>
  What an attempt must have thrown for a retry to follow: the client's server error,
  raised for a response whose status is neither 2xx nor 4xx, or an \<open>Error\<close> of the
  environment whose message matches one of the network and timeout patterns.
\<close>

fun retryCause :: "thrown \<Rightarrow> bool" where
  "retryCause (Typed e) =
     (case fe_message e of
        ServerError st txt \<Rightarrow> \<not> (200 \<le> st \<and> st \<le> 299) \<and> \<not> (400 \<le> st \<and> st < 500)
      | _ \<Rightarrow> False)"
| "retryCause (Foreign (JsError n m)) = messageMatches m"
| "retryCause (Foreign NonError) = False"

definition retriedAfter ::
  "FetchOptions \<Rightarrow> js_string \<Rightarrow> js_string \<Rightarrow> (nat \<Rightarrow> exn + Response) \<Rightarrow> nat \<Rightarrow> bool" where
  "retriedAfter opts nullMsg rid transport i =
     (case tryAttempt opts nullMsg rid (transport i) of
        Inl err \<Rightarrow> retryCause err
      | Inr p \<Rightarrow> False)"

text \<open>
  Responses for examples: a 200 with the envelope \<open>{code: 200, msg: "ok", data: "payload"}\<close>,
  a 200 with the envelope \<open>{code: 500, msg: "boom"}\<close>, and a response with a given
  status and no body to speak of.
\<close>

definition sampleOk :: Response where
  "sampleOk =
     \<lparr> resp_status = 200, statusText = js ''OK'',
       contentType = Some (js ''application/json''),
       body_text = Inr [],
       body_json = Inr (JsObject [(js ''code'', JsNumber 200), (js ''msg'', JsString (js ''ok'')),
                                  (js ''data'', JsString (js ''payload''))]) \<rparr>"

definition sampleEnvelopeError :: Response where
  "sampleEnvelopeError =
     \<lparr> resp_status = 200, statusText = js ''OK'',
       contentType = Some (js ''application/json''),
       body_text = Inr [],
       body_json = Inr (JsObject [(js ''code'', JsNumber 500),
                                  (js ''msg'', JsString (js ''boom''))]) \<rparr>"

definition sampleStatus :: "nat \<Rightarrow> Response" where
  "sampleStatus n =
     \<lparr> resp_status = n, statusText = [], contentType = None,
       body_text = Inr [], body_json = Inl (JsError (js ''SyntaxError'') []) \<rparr>"

text \<open>
  The resolution order in the words of the specification: of the candidates, in order,
  the first whose trimmed value is not empty wins, trimmed.
\<close>

fun firstNonEmptyTrimmed :: "js_string option list \<Rightarrow> js_string option" where
  "firstNonEmptyTrimmed [] = None"
| "firstNonEmptyTrimmed (None # cs) = firstNonEmptyTrimmed cs"
| "firstNonEmptyTrimmed (Some v # cs) =
     (if trim v = [] then firstNonEmptyTrimmed cs else Some (trim v))"

text \<open>A parameter that is present, not empty, and white space only.\<close>

definition whitespaceOnly :: "js_string option \<Rightarrow> bool" where
  "whitespaceOnly x = (case x of None \<Rightarrow> False | Some v \<Rightarrow> v \<noteq> [] \<and> trim v = [])"

text \<open>
  The configured default: \<open>VITE_FACTORY_CODE\<close> when it is set and not empty, else the
  literal of line 161.
\<close>

definition configuredDefault :: "js_string option \<Rightarrow> js_string" where
  "configuredDefault env =
     (case env of
        None \<Rightarrow> js ''DEFAULT_FACTORY_CODE''
      | Some v \<Rightarrow> if v = [] then js ''DEFAULT_FACTORY_CODE'' else v)"

section \<open>Properties\<close>

subsection \<open>The order status\<close>

lemma foldl_digits_zero:
  "foldl (\<lambda>acc c. 10 * acc + (c - 48)) a ds = (0::nat) \<longleftrightarrow>
     a = 0 \<and> list_all (\<lambda>c. c - 48 = 0) ds"
  by (induction ds arbitrary: a) auto

lemma digitsValue_zero:
  "list_all isDigit ds \<Longrightarrow> digitsValue ds = 0 \<longleftrightarrow> \<not> list_ex (\<lambda>c. c \<noteq> 48) ds"
  unfolding digitsValue_def foldl_digits_zero
  by (induction ds) (auto simp: isDigit_def)

lemma digitRun_digits: "list_all isDigit (digitRun s)"
  by (simp add: digitRun_def Let_def list_all_iff) (meson set_takeWhileD)

lemma parseInt_zero_iff:
  "(parseInt s = NaN \<or> parseInt s = Num 0) \<longleftrightarrow> \<not> list_ex (\<lambda>c. c \<noteq> 48) (digitRun s)"
  using digitsValue_zero [OF digitRun_digits, of s]
  by (auto simp: parseInt_def Let_def)

lemma getOrderStatus_string:
  "getOrderStatus (JStr s) = (if list_ex (\<lambda>c. c \<noteq> 48) (digitRun s) then Shipped else Pending)"
  using parseInt_zero_iff [of s]
  by (cases "parseInt s") (auto simp: getOrderStatus_def)

lemma getOrderStatus_parseInt:
  "getOrderStatus (JStr s) = (if parseInt s = NaN \<or> parseInt s = Num 0 then Pending else Shipped)"
  by (cases "parseInt s") (auto simp: getOrderStatus_def)

text \<open>
  C4, as the code has it. The status is \<open>shipped\<close> for the boolean true, for a number
  that is neither zero nor NaN, and for every string that \<open>parseInt(s, 10)\<close> reads as a
  number other than zero: a string whose digits, after leading white space and one
  optional sign, are not all \<open>0\<close>. The strings \<open>1\<close>, \<open>2\<close> and \<open>1abc\<close> are of
  this kind. The status is \<open>pending\<close> for the boolean false, for 0, for NaN, for an
  absent flag, and for every string that \<open>parseInt\<close> reads as 0 or as NaN, such as
  \<open>0\<close> and the empty string.
\<close>

theorem getOrderStatus_cases:
  "getOrderStatus (JBool b) = (if b then Shipped else Pending) \<and>
   getOrderStatus (JNum (Num x)) = (if x = 0 then Pending else Shipped) \<and>
   getOrderStatus (JNum NaN) = Pending \<and>
   getOrderStatus Undefined = Pending \<and>
   getOrderStatus (JStr (js ''1'')) = Shipped \<and>
   getOrderStatus (JStr (js ''0'')) = Pending \<and>
   getOrderStatus (JStr s) =
     (if parseInt s = NaN \<or> parseInt s = Num 0 then Pending else Shipped) \<and>
   getOrderStatus (JStr s) =
     (if list_ex (\<lambda>c. c \<noteq> 48) (digitRun s) then Shipped else Pending)"
proof -
  have one: "getOrderStatus (JStr (js ''1'')) = Shipped"
    by (simp add: getOrderStatus_def parseInt_def digitRun_def js_def isWhiteSpace_def
        isDigit_def digitsValue_def)
  have zero: "getOrderStatus (JStr (js ''0'')) = Pending"
    by (simp add: getOrderStatus_def parseInt_def digitRun_def js_def isWhiteSpace_def
        isDigit_def digitsValue_def)
  show ?thesis
    using one zero getOrderStatus_parseInt [of s] getOrderStatus_string [of s]
    by (simp add: getOrderStatus_def)
qed

text \<open>
  C4 as stated fails: the strings \<open>2\<close> and \<open>1abc\<close> are none of the representations
  the claim lists, so the claim makes them falsy and the order pending, but the code
  makes the order shipped.
\<close>

theorem getOrderStatus_other_strings_shipped:
  "getOrderStatus (JStr (js ''2'')) = Shipped \<and>
   getOrderStatus (JStr (js ''1abc'')) = Shipped \<and>
   getOrderStatus (JStr (js ''2'')) \<noteq> Pending"
  by (simp add: getOrderStatus_def parseInt_def digitRun_def js_def isWhiteSpace_def
      isDigit_def digitsValue_def)

subsection \<open>The time format\<close>

lemma pad_two: "n < 100 \<Longrightarrow> padStart 2 48 (digitsOf n) = [48 + n div 10, 48 + n mod 10]"
proof (cases "n < 10")
  case True
  then show ?thesis by (simp add: padStart_def)
next
  case False
  assume "n < 100"
  with False have "n div 10 < 10" by simp
  with False show ?thesis
    by (simp add: padStart_def)
qed

lemma formatTime_absent:
  "formatTime newDate None = js ''-'' \<and> formatTime newDate (Some []) = js ''-''"
  by (simp add: formatTime_def)

lemma formatTime_valid:
  "t \<noteq> [] \<Longrightarrow> newDate t = ValidDate h m \<Longrightarrow> h < 24 \<Longrightarrow> m < 60 \<Longrightarrow>
   formatTime newDate (Some t) = [48 + h div 10, 48 + h mod 10, 58, 48 + m div 10, 48 + m mod 10]"
  using pad_two [of h] pad_two [of m]
  by (simp add: formatTime_def Let_def js_def del: digitsOf.simps)

text \<open>
  C5, where the code leaves the claim. For a timestamp that is present and not empty
  but does not parse, \<open>new Date\<close> gives the Invalid Date without throwing, so the
  \<open>catch\<close> that would return \<open>-\<close> is never entered: the getters return NaN and
  \<open>formatTime\<close> returns \<open>NaN:NaN\<close>, not \<open>-\<close>. (An absent or empty timestamp gives
  \<open>-\<close>, a valid one the zero-padded \<open>HH:MM\<close>, and no input makes \<open>formatTime\<close> throw:
  \<open>formatTime_absent\<close>, \<open>formatTime_valid\<close>.)
\<close>

theorem formatTime_unparseable:
  "t \<noteq> [] \<Longrightarrow> newDate t = InvalidDate \<Longrightarrow>
   formatTime newDate (Some t) = js ''NaN:NaN'' \<and> formatTime newDate (Some t) \<noteq> js ''-''"
  by (simp add: formatTime_def js_def padStart_def)

theorem formatTime_unparseable_witness:
  "js ''not-a-date'' \<noteq> [] \<and>
   formatTime (\<lambda>t. InvalidDate) (Some (js ''not-a-date'')) = js ''NaN:NaN'' \<and>
   formatTime (\<lambda>t. InvalidDate) (Some (js ''not-a-date'')) \<noteq> js ''-''"
  using formatTime_unparseable [of "js ''not-a-date''" "\<lambda>t. InvalidDate"]
  by (simp add: js_def)

subsection \<open>The alerts\<close>

lemma firstMatches_take_filter: "firstMatches n P xs = take n (filter P xs)"
  by (induction n P xs rule: firstMatches.induct) auto

text \<open>
  C6. For every record list, the alerts are the first eight records, in input order,
  whose risk flag is \<open>DELAYED\<close> and that have no receipt, each mapped to its sheet
  number (or the empty string), the fixed message and the formatted time; so there are
  \<open>min 8 n\<close> of them, \<open>n\<close> the number of such records.
\<close>

theorem transformAlerts_first_eight:
  "transformAlerts newDate records =
     map (\<lambda>r. \<lparr> alert_id = (case sheetNo r of None \<Rightarrow> [] | Some x \<Rightarrow> x),
                message = ALERT_MESSAGE,
                timestamp = formatTime newDate (lastRecRequireTime r) \<rparr>)
       (firstMatches 8 (\<lambda>r. riskFlag r = Some (js ''DELAYED'') \<and> hasReceipt r \<noteq> Some True)
          records) \<and>
   length (transformAlerts newDate records) =
     min 8 (card {i. i < length records \<and> riskFlag (records ! i) = Some (js ''DELAYED'') \<and>
                     hasReceipt (records ! i) \<noteq> Some True})"
proof -
  have sel: "take 8 (filter isDelayedNoReceipt records) =
      firstMatches 8 (\<lambda>r. riskFlag r = Some (js ''DELAYED'') \<and> hasReceipt r \<noteq> Some True) records"
    by (simp add: firstMatches_take_filter isDelayedNoReceipt_def [abs_def])
  have al: "toAlert newDate =
      (\<lambda>r. \<lparr> alert_id = (case sheetNo r of None \<Rightarrow> [] | Some x \<Rightarrow> x),
             message = ALERT_MESSAGE,
             timestamp = formatTime newDate (lastRecRequireTime r) \<rparr>)"
    by (auto simp: toAlert_def orElse_def fun_eq_iff split: option.splits)
  have len: "length (filter isDelayedNoReceipt records) =
      card {i. i < length records \<and> riskFlag (records ! i) = Some (js ''DELAYED'') \<and>
               hasReceipt (records ! i) \<noteq> Some True}"
    by (simp add: length_filter_conv_card isDelayedNoReceipt_def)
  show ?thesis
    unfolding transformAlerts_def sel [symmetric] al [symmetric]
    using len by (simp add: min.commute)
qed

subsection \<open>A failed load\<close>

text \<open>
  C3. When \<open>fetchDispatchBoard\<close> throws, \<open>loadData\<close> changes nothing but the loading
  flag: the orders, the summary, the alerts, the count of pending orders with a
  receipt, the last update time, the timer ref and the running timers keep their
  values. When it resolves, the last update time becomes the wall-clock time of the
  completion.
\<close>

theorem loadData_failure_keeps_state:
  "loadData newDate nowTime h (Inl err) s = s\<lparr> loading := False \<rparr> \<and>
   orders (loadData newDate nowTime h (Inl err) s) = orders s \<and>
   summary (loadData newDate nowTime h (Inl err) s) = summary s \<and>
   alerts (loadData newDate nowTime h (Inl err) s) = alerts s \<and>
   pendingWithReceiptCount (loadData newDate nowTime h (Inl err) s) = pendingWithReceiptCount s \<and>
   lastUpdateTime (loadData newDate nowTime h (Inl err) s) = lastUpdateTime s \<and>
   refreshTimerRef (loadData newDate nowTime h (Inl err) s) = refreshTimerRef s \<and>
   intervals (loadData newDate nowTime h (Inl err) s) = intervals s \<and>
   lastUpdateTime (loadData newDate nowTime h (Inr result) s) = nowTime"
  by (simp add: loadData_def Let_def adjustTimer_def)

subsection \<open>The receipt warning\<close>

text \<open>
  C9. After a load, the count of pending orders with a receipt is the number of
  records with a truthy \<open>hasReceipt\<close> and \<open>isDelivered\<close> strictly equal to the boolean
  false; the warning is rendered exactly when that count is positive or the receipt
  count exceeds the delivered count.
\<close>

theorem pendingWithReceipt_and_warning:
  "pendingWithReceiptCount (loadData newDate nowTime h (Inr result) s) =
     card {i. i < length (content result) \<and> hasReceipt (content result ! i) = Some True \<and>
              isDelivered (content result ! i) = JBool False} \<and>
   (ReceiptWarning rc dc pc \<noteq> None) = (0 < pc \<or> dc < rc) \<and>
   (ReceiptWarning rc dc pc = None) = (pc = 0 \<and> rc \<le> dc)"
  by (auto simp: loadData_def Let_def adjustTimer_def pendingWithReceipt_def
      length_filter_conv_card ReceiptWarning_def)

subsection \<open>The delivered count and the shipped orders\<close>

lemma status_truthy: "notString v \<Longrightarrow> (getOrderStatus v = Shipped) = truthy v"
  by (cases v) (auto simp: getOrderStatus_def notString_def)

lemma count_shipped:
  "list_all (\<lambda>r. notString (isDelivered r)) rs \<Longrightarrow>
   length (filter (\<lambda>r. truthy (isDelivered r)) rs) =
   length (filter (\<lambda>x. status x = Shipped) (map (toOrder newDate) rs))"
  by (induction rs) (auto simp: toOrder_def status_truthy)

text \<open>
  C10. The summary counts a record as delivered when its raw \<open>isDelivered\<close> is truthy;
  the status of an order reads a string flag through \<open>parseInt\<close>. So when every flag
  is absent, a boolean or a number, the delivered count after a load is the number of
  orders with status \<open>shipped\<close>; but a record whose flag is a non-empty string that
  \<open>parseInt\<close> reads as 0 or NaN counts as delivered while its order is \<open>pending\<close>.
\<close>

theorem deliveredCount_versus_shipped:
  "(list_all (\<lambda>r. notString (isDelivered r)) (content result) \<longrightarrow>
      deliveredCount (summary (loadData newDate nowTime h (Inr result) s)) =
      length (filter (\<lambda>x. status x = Shipped)
        (orders (loadData newDate nowTime h (Inr result) s)))) \<and>
   (str \<noteq> [] \<and> (parseInt str = NaN \<or> parseInt str = Num 0) \<and> isDelivered r = JStr str \<longrightarrow>
      deliveredCount (summary
        (loadData newDate nowTime h (Inr \<lparr> content = [r], totalElements = 1 \<rparr>) s)) = 1 \<and>
      map status (orders
        (loadData newDate nowTime h (Inr \<lparr> content = [r], totalElements = 1 \<rparr>) s)) = [Pending])"
proof -
  have a: "list_all (\<lambda>r. notString (isDelivered r)) (content result) \<Longrightarrow>
      deliveredCount (summary (loadData newDate nowTime h (Inr result) s)) =
      length (filter (\<lambda>x. status x = Shipped)
        (orders (loadData newDate nowTime h (Inr result) s)))"
    using count_shipped [of "content result" newDate]
    by (simp add: loadData_def Let_def adjustTimer_def toSummary_def transformOrders_def)
  have b: "str \<noteq> [] \<Longrightarrow> parseInt str = NaN \<or> parseInt str = Num 0 \<Longrightarrow>
      isDelivered r = JStr str \<Longrightarrow>
      deliveredCount (summary
        (loadData newDate nowTime h (Inr \<lparr> content = [r], totalElements = 1 \<rparr>) s)) = 1 \<and>
      map status (orders
        (loadData newDate nowTime h (Inr \<lparr> content = [r], totalElements = 1 \<rparr>) s)) = [Pending]"
    using getOrderStatus_parseInt [of str]
    by (simp add: loadData_def Let_def adjustTimer_def toSummary_def transformOrders_def
        toOrder_def)
  show ?thesis using a b by blast
qed

text \<open>
  The theorem at three records with the flags true, 0 and absent (one delivered, one
  shipped), and at one record with the flag \<open>0\<close> as a string (delivered, yet pending).
\<close>

theorem deliveredCount_versus_shipped_witness:
  "deliveredCount (summary (loadData (\<lambda>t. InvalidDate) (js ''10:00:00'') 1
      (Inr \<lparr> content = [sampleRecord (JBool True) None None,
                         sampleRecord (JNum (Num 0)) None None,
                         sampleRecord Undefined None None], totalElements = 3 \<rparr>) initialPage)) = 1 \<and>
   length (filter (\<lambda>x. status x = Shipped) (orders (loadData (\<lambda>t. InvalidDate) (js ''10:00:00'') 1
      (Inr \<lparr> content = [sampleRecord (JBool True) None None,
                         sampleRecord (JNum (Num 0)) None None,
                         sampleRecord Undefined None None], totalElements = 3 \<rparr>) initialPage))) = 1 \<and>
   deliveredCount (summary (loadData (\<lambda>t. InvalidDate) (js ''10:00:00'') 1
      (Inr \<lparr> content = [sampleRecord (JStr (js ''0'')) None None], totalElements = 1 \<rparr>)
      initialPage)) = 1 \<and>
   map status (orders (loadData (\<lambda>t. InvalidDate) (js ''10:00:00'') 1
      (Inr \<lparr> content = [sampleRecord (JStr (js ''0'')) None None], totalElements = 1 \<rparr>)
      initialPage)) = [Pending]"
proof -
  have zero: "parseInt (js ''0'') = Num 0"
    by (simp add: parseInt_def digitRun_def js_def isWhiteSpace_def isDigit_def digitsValue_def)
  have flags: "list_all (\<lambda>r. notString (isDelivered r))
      [sampleRecord (JBool True) None None, sampleRecord (JNum (Num 0)) None None,
       sampleRecord Undefined None None]"
    by (simp add: notString_def sampleRecord_def)
  have one: "deliveredCount (summary (loadData (\<lambda>t. InvalidDate) (js ''10:00:00'') 1
      (Inr \<lparr> content = [sampleRecord (JBool True) None None,
                         sampleRecord (JNum (Num 0)) None None,
                         sampleRecord Undefined None None], totalElements = 3 \<rparr>) initialPage)) = 1"
    by (simp add: loadData_def Let_def adjustTimer_def toSummary_def sampleRecord_def)
  show ?thesis
    using deliveredCount_versus_shipped [of
        "\<lparr> content = [sampleRecord (JBool True) None None,
                      sampleRecord (JNum (Num 0)) None None,
                      sampleRecord Undefined None None], totalElements = 3 \<rparr>"
        "\<lambda>t. InvalidDate" "js ''10:00:00''" 1 initialPage "js ''0''"
        "sampleRecord (JStr (js ''0'')) None None"]
      zero flags one
    by (simp add: sampleRecord_def js_def)
qed

subsection \<open>The polling timer\<close>

lemma timerInv_initial: "timerInv initialPage"
  by (simp add: timerInv_def initialPage_def)

lemma adjustTimer_result:
  "timerInv s \<Longrightarrow> 0 < h \<Longrightarrow>
   intervals (adjustTimer h hasData s) =
     (if hasData then [] else [(h, NO_DATA_REFRESH_INTERVAL)]) \<and>
   refreshTimerRef (adjustTimer h hasData s) = (if hasData then None else Some h)"
  by (auto simp: timerInv_def adjustTimer_def timerSet_def clearInterval_def
      split: option.splits)

lemma loadData_timer:
  "timerInv s \<Longrightarrow> 0 < h \<Longrightarrow>
   intervals (loadData newDate nowTime h (Inr result) s) =
     (if content result = [] then [(h, NO_DATA_REFRESH_INTERVAL)] else []) \<and>
   refreshTimerRef (loadData newDate nowTime h (Inr result) s) =
     (if content result = [] then Some h else None)"
proof -
  assume inv: "timerInv s" and pos: "0 < h"
  let ?s1 = "s\<lparr> orders := transformOrders newDate (content result),
                 alerts := transformAlerts newDate (content result),
                 summary := toSummary (content result),
                 pendingWithReceiptCount := pendingWithReceipt (content result) \<rparr>"
  from inv have "timerInv ?s1" by (simp add: timerInv_def split: option.splits)
  from adjustTimer_result [OF this pos, of "0 < length (transformOrders newDate (content result))"]
  show ?thesis
    by (simp add: loadData_def Let_def transformOrders_def)
qed

lemma timerInv_loadData:
  "timerInv s \<Longrightarrow> 0 < h \<Longrightarrow> timerInv (loadData newDate nowTime h outcome s)"
proof (cases outcome)
  case (Inl e)
  assume "timerInv s"
  with Inl show ?thesis by (simp add: loadData_def timerInv_def split: option.splits)
next
  case (Inr result)
  assume inv: "timerInv s" and pos: "0 < h"
  have "intervals (loadData newDate nowTime h outcome s) =
     (if content result = [] then [(h, NO_DATA_REFRESH_INTERVAL)] else []) \<and>
   refreshTimerRef (loadData newDate nowTime h outcome s) =
     (if content result = [] then Some h else None)"
    unfolding Inr by (rule loadData_timer [OF inv pos])
  with pos show ?thesis
    by (cases "content result = []") (simp_all add: timerInv_def)
qed

lemma timerInv_step:
  "timerInv s \<Longrightarrow> handlePositive e \<Longrightarrow> timerInv (pageStep newDate s e)"
proof (cases e)
  case (LoadSettled nowTime h outcome)
  assume "timerInv s" "handlePositive e"
  with LoadSettled show ?thesis by (simp add: timerInv_loadData)
next
  case BottomReached
  assume "timerInv s"
  with BottomReached show ?thesis
    by (simp add: timerInv_def handleTableRefresh_def split: option.splits)
next
  case Unmounted
  assume "timerInv s"
  with Unmounted show ?thesis
    by (auto simp: timerInv_def unmount_def timerSet_def clearInterval_def
        split: option.splits)
qed

lemma timerInv_run:
  "timerInv s \<Longrightarrow> list_all handlePositive es \<Longrightarrow> timerInv (pageRun newDate es s)"
  unfolding pageRun_def
  by (induction es arbitrary: s) (simp_all add: timerInv_step)

text \<open>
  C1. Take the page after any history of settled loads, bottom signals and an unmount,
  with every timer handle greater than zero. When a call of \<open>loadData\<close> then succeeds,
  the timers that re-invoke \<open>loadData\<close> are: exactly one, of five minutes, held by the
  ref, when the transformed order list of that fetch is empty; none, with the ref null,
  when it is not empty. A timer armed before is disarmed in both cases.
\<close>

theorem polling_timer_armed_iff_empty:
  "list_all handlePositive es \<Longrightarrow> 0 < h \<Longrightarrow>
   intervals (loadData newDate nowTime h (Inr result) (pageRun newDate es initialPage)) =
     (if transformOrders newDate (content result) = [] then [(h, 5 * 60 * 1000)] else []) \<and>
   refreshTimerRef (loadData newDate nowTime h (Inr result) (pageRun newDate es initialPage)) =
     (if transformOrders newDate (content result) = [] then Some h else None)"
proof -
  assume es: "list_all handlePositive es" and pos: "0 < h"
  have inv: "timerInv (pageRun newDate es initialPage)"
    using timerInv_initial es by (rule timerInv_run)
  have "intervals (loadData newDate nowTime h (Inr result) (pageRun newDate es initialPage)) =
     (if content result = [] then [(h, NO_DATA_REFRESH_INTERVAL)] else []) \<and>
   refreshTimerRef (loadData newDate nowTime h (Inr result) (pageRun newDate es initialPage)) =
     (if content result = [] then Some h else None)"
    by (rule loadData_timer [OF inv pos])
  then show ?thesis
    by (simp add: transformOrders_def NO_DATA_REFRESH_INTERVAL_def)
qed

text \<open>
  The theorem after one empty load, which armed the timer with handle 1: a load with
  one record disarms it.
\<close>

theorem polling_timer_armed_iff_empty_witness:
  "intervals (pageRun (\<lambda>t. InvalidDate)
      [LoadSettled (js ''09:55:00'') 1 (Inr \<lparr> content = [], totalElements = 0 \<rparr>)]
      initialPage) = [(1, 300000)] \<and>
   intervals (loadData (\<lambda>t. InvalidDate) (js ''10:00:00'') 2
      (Inr \<lparr> content = [sampleRecord (JBool True) None None], totalElements = 1 \<rparr>)
      (pageRun (\<lambda>t. InvalidDate)
         [LoadSettled (js ''09:55:00'') 1 (Inr \<lparr> content = [], totalElements = 0 \<rparr>)]
         initialPage)) = [] \<and>
   refreshTimerRef (loadData (\<lambda>t. InvalidDate) (js ''10:00:00'') 2
      (Inr \<lparr> content = [sampleRecord (JBool True) None None], totalElements = 1 \<rparr>)
      (pageRun (\<lambda>t. InvalidDate)
         [LoadSettled (js ''09:55:00'') 1 (Inr \<lparr> content = [], totalElements = 0 \<rparr>)]
         initialPage)) = None"
  using polling_timer_armed_iff_empty [of
      "[LoadSettled (js ''09:55:00'') 1 (Inr \<lparr> content = [], totalElements = 0 \<rparr>)]"
      2 "\<lambda>t. InvalidDate" "js ''10:00:00''"
      "\<lparr> content = [sampleRecord (JBool True) None None], totalElements = 1 \<rparr>"]
  by (simp add: transformOrders_def pageRun_def loadData_def adjustTimer_def initialPage_def
      timerSet_def NO_DATA_REFRESH_INTERVAL_def)

subsection \<open>The scrolling table\<close>

lemma cancelFrame_fields [simp]:
  "refreshCalls (cancelFrame s) = refreshCalls s"
  "shouldScrollRef (cancelFrame s) = shouldScrollRef s"
  "autoScroll (cancelFrame s) = autoScroll s"
  "tbl_orders (cancelFrame s) = tbl_orders s"
  "containerMounted (cancelFrame s) = containerMounted s"
  "hasOnRefresh (cancelFrame s) = hasOnRefresh s"
  "cleanupLeft (cancelFrame s) = cleanupLeft s"
  "scrollRef (cancelFrame s) = scrollRef s"
  by (simp_all add: cancelFrame_def split: option.splits)

lemma budget_handleScroll: "budget (handleScroll sh ch s) \<le> budget s"
  by (simp add: handleScroll_def Let_def budget_def reachBottom_def)

lemma budget_animate: "budget (animate sh ch h s) \<le> budget s"
  by (simp add: animate_def Let_def budget_def reachBottom_def)

lemma budget_step: "staysInCycle e \<Longrightarrow> budget (tableStep s e) \<le> budget s"
proof (cases e)
  case (Render ords auto cb h)
  assume "staysInCycle e"
  with Render show ?thesis
    by (auto simp: staysInCycle_def render_def effect_def Let_def budget_def)
next
  case (Frame k sh ch h)
  have "budget (s\<lparr> frames := filter (\<lambda>j. j \<noteq> k) (frames s) \<rparr>) = budget s"
    by (simp add: budget_def)
  with Frame budget_animate [of sh ch h "s\<lparr> frames := filter (\<lambda>j. j \<noteq> k) (frames s) \<rparr>"]
  show ?thesis by simp
next
  case (ScrollTo pos sh ch)
  have "budget (s\<lparr> scrollTop := pos \<rparr>) = budget s"
    by (simp add: budget_def)
  with ScrollTo budget_handleScroll [of sh ch "s\<lparr> scrollTop := pos \<rparr>"]
  show ?thesis by simp
qed

lemma budget_run: "list_all staysInCycle es \<Longrightarrow> budget (tableRun es s) \<le> budget s"
  unfolding tableRun_def
proof (induction es arbitrary: s)
  case Nil
  then show ?case by simp
next
  case (Cons e es)
  then have "budget (foldl tableStep (tableStep s e) es) \<le> budget (tableStep s e)" by simp
  also have "\<dots> \<le> budget s" using Cons.prems by (simp add: budget_step)
  finally show ?case by simp
qed

lemma calls_step: "refreshCalls s \<le> refreshCalls (tableStep s e)"
proof (cases e)
  case (Render ords auto cb h)
  then show ?thesis by (simp add: render_def effect_def Let_def)
next
  case (Frame k sh ch h)
  then show ?thesis by (simp add: animate_def Let_def reachBottom_def)
next
  case (ScrollTo pos sh ch)
  then show ?thesis by (simp add: handleScroll_def Let_def reachBottom_def)
qed

lemma calls_run: "refreshCalls s \<le> refreshCalls (tableRun es s)"
  unfolding tableRun_def
proof (induction es arbitrary: s)
  case Nil
  then show ?case by simp
next
  case (Cons e es)
  have "refreshCalls s \<le> refreshCalls (tableStep s e)" by (rule calls_step)
  also have "\<dots> \<le> refreshCalls (foldl tableStep (tableStep s e) es)" by (rule Cons.IH)
  finally show ?case by simp
qed

lemma calls_bounded:
  "list_all staysInCycle es \<Longrightarrow>
   refreshCalls (tableRun es s) \<le> refreshCalls s + (if shouldScrollRef s then 1 else 0)"
  using budget_run [of es s] by (simp add: budget_def split: if_splits)

lemma calls_after_reset:
  "ords \<noteq> [] \<Longrightarrow> list_all staysInCycle es \<Longrightarrow>
   refreshCalls (tableRun es (render ords True cb h s)) \<le> refreshCalls s + 1"
proof -
  assume ne: "ords \<noteq> []" and es: "list_all staysInCycle es"
  have "refreshCalls (render ords True cb h s) = refreshCalls s"
    using ne by (simp add: render_def effect_def Let_def)
  with calls_bounded [OF es, of "render ords True cb h s"] show ?thesis
    by (simp split: if_splits)
qed

lemma calls_after_bottom:
  "list_all staysInCycle es \<Longrightarrow> \<not> shouldScrollRef s \<Longrightarrow>
   refreshCalls (tableRun es s) = refreshCalls s"
  using calls_bounded [of es s] calls_run [of s es] by simp

lemma tableInv_initial: "tableInv initialTable"
  by (simp add: tableInv_def initialTable_def)

lemma tableInv_render:
  "tableInv s \<Longrightarrow> 0 < h \<Longrightarrow> tableInv (render ords auto cb h s)"
  by (auto simp: tableInv_def render_def effect_def cancelFrame_def Let_def
      split: option.splits)

lemma tableInv_frame:
  "tableInv s \<Longrightarrow> 0 < h \<Longrightarrow> tableInv (tableStep s (Frame k sh ch h))"
  by (auto simp: tableInv_def animate_def reachBottom_def Let_def split: option.splits)

lemma tableInv_scroll: "tableInv s \<Longrightarrow> tableInv (tableStep s (ScrollTo pos sh ch))"
  by (auto simp: tableInv_def handleScroll_def reachBottom_def Let_def split: option.splits)

lemma tableInv_step:
  "tableInv s \<Longrightarrow> frameHandlesPositive e \<Longrightarrow> tableInv (tableStep s e)"
proof (cases e)
  case (Render ords auto cb h)
  assume "tableInv s" "frameHandlesPositive e"
  with Render show ?thesis using tableInv_render [of s h ords auto cb] by simp
next
  case (Frame k sh ch h)
  assume "tableInv s" "frameHandlesPositive e"
  with Frame show ?thesis using tableInv_frame [of s h k sh ch] by simp
next
  case (ScrollTo pos sh ch)
  assume "tableInv s"
  with ScrollTo show ?thesis using tableInv_scroll [of s pos sh ch] by simp
qed

lemma tableInv_run:
  "tableInv s \<Longrightarrow> list_all frameHandlesPositive es \<Longrightarrow> tableInv (tableRun es s)"
  unfolding tableRun_def
  by (induction es arbitrary: s) (simp_all add: tableInv_step)

lemma idle_step:
  "idle s \<Longrightarrow> keepsEmpty e \<Longrightarrow>
   idle (tableStep s e) \<and> refreshCalls (tableStep s e) = refreshCalls s"
proof (cases e)
  case (Render ords auto cb h)
  assume "idle s" "keepsEmpty e"
  with Render show ?thesis
    by (simp add: idle_def render_def effect_def cancelFrame_def Let_def split: option.splits)
next
  case (Frame k sh ch h)
  assume "idle s"
  with Frame show ?thesis by (simp add: idle_def)
next
  case (ScrollTo pos sh ch)
  assume "idle s"
  with ScrollTo show ?thesis by (simp add: idle_def)
qed

lemma idle_run:
  "idle s \<Longrightarrow> list_all keepsEmpty es \<Longrightarrow>
   idle (tableRun es s) \<and> refreshCalls (tableRun es s) = refreshCalls s"
  unfolding tableRun_def
proof (induction es arbitrary: s)
  case Nil
  then show ?case by simp
next
  case (Cons e es)
  from idle_step [OF Cons.prems(1), of e] Cons.prems(2)
  have st: "idle (tableStep s e)" and eq: "refreshCalls (tableStep s e) = refreshCalls s"
    by simp_all
  from Cons.IH [OF st] Cons.prems(2) eq show ?case by simp
qed

lemma empty_is_idle:
  "list_all frameHandlesPositive hist \<Longrightarrow> tbl_orders (tableRun hist initialTable) = [] \<Longrightarrow>
   idle (tableRun hist initialTable)"
proof -
  assume "list_all frameHandlesPositive hist"
  with tableInv_initial have "tableInv (tableRun hist initialTable)" by (rule tableInv_run)
  moreover assume "tbl_orders (tableRun hist initialTable) = []"
  ultimately show ?thesis by (simp add: tableInv_def idle_def)
qed

lemma scroll_fires:
  "containerMounted s \<Longrightarrow> shouldScrollRef s \<Longrightarrow> hasOnRefresh s \<Longrightarrow>
   refreshCalls (tableStep s (ScrollTo pos sh ch)) =
     refreshCalls s + (if sh - ch - 50 \<le> pos then 1 else 0)"
  by (simp add: handleScroll_def reachBottom_def Let_def BOTTOM_THRESHOLD_def)

lemma frame_fires:
  "containerMounted s \<Longrightarrow> shouldScrollRef s \<Longrightarrow> hasOnRefresh s \<Longrightarrow> k \<in> set (frames s) \<Longrightarrow>
   refreshCalls (tableStep s (Frame k sh ch h)) =
     refreshCalls s + (if sh - ch - 50 \<le> scrollTop s then 1 else 0)"
  by (simp add: animate_def reachBottom_def Let_def BOTTOM_THRESHOLD_def)

text \<open>
  C2. Over any run of events that does not reset the controller (no render that scrolls
  and has orders), the bottom-reached callback is called at most once more if the
  controller may still scroll, and not at all if it has reached the bottom; so after a
  reset a cycle calls it at most once, whatever frames and scroll events follow. With
  the container shown, scrolling allowed and a callback given, a scroll event to an
  offset, or a frame at the current offset, calls it exactly when the offset is at
  least \<open>scrollHeight - clientHeight - 50\<close>. And whenever the order list is empty
  (after any history with frame handles greater than zero), no frame is owed, the
  empty state is rendered, and while the list stays empty no event calls the callback.
\<close>

theorem bottom_callback_once_per_cycle:
  "(list_all staysInCycle es \<longrightarrow>
      refreshCalls (tableRun es s) \<le> refreshCalls s + (if shouldScrollRef s then 1 else 0)) \<and>
   (ords \<noteq> [] \<and> list_all staysInCycle es \<longrightarrow>
      refreshCalls (tableRun es (render ords True cb h s)) \<le> refreshCalls s + 1) \<and>
   (list_all staysInCycle es \<and> \<not> shouldScrollRef sb \<longrightarrow>
      refreshCalls (tableRun es sb) = refreshCalls sb) \<and>
   (containerMounted sa \<and> shouldScrollRef sa \<and> hasOnRefresh sa \<longrightarrow>
      refreshCalls (tableStep sa (ScrollTo pos sh ch)) =
        refreshCalls sa + (if sh - ch - 50 \<le> pos then 1 else 0) \<and>
      (k \<in> set (frames sa) \<longrightarrow>
         refreshCalls (tableStep sa (Frame k sh ch h')) =
           refreshCalls sa + (if sh - ch - 50 \<le> scrollTop sa then 1 else 0))) \<and>
   (list_all frameHandlesPositive hist \<and> tbl_orders (tableRun hist initialTable) = [] \<and>
    list_all keepsEmpty es2 \<longrightarrow>
      frames (tableRun hist initialTable) = [] \<and>
      view (tableRun hist initialTable) = EmptyState \<and>
      frames (tableRun es2 (tableRun hist initialTable)) = [] \<and>
      view (tableRun es2 (tableRun hist initialTable)) = EmptyState \<and>
      refreshCalls (tableRun es2 (tableRun hist initialTable)) =
        refreshCalls (tableRun hist initialTable))"
proof -
  have e: "list_all frameHandlesPositive hist \<Longrightarrow>
    tbl_orders (tableRun hist initialTable) = [] \<Longrightarrow> list_all keepsEmpty es2 \<Longrightarrow>
      frames (tableRun hist initialTable) = [] \<and>
      view (tableRun hist initialTable) = EmptyState \<and>
      frames (tableRun es2 (tableRun hist initialTable)) = [] \<and>
      view (tableRun es2 (tableRun hist initialTable)) = EmptyState \<and>
      refreshCalls (tableRun es2 (tableRun hist initialTable)) =
        refreshCalls (tableRun hist initialTable)"
  proof -
    assume a: "list_all frameHandlesPositive hist" "tbl_orders (tableRun hist initialTable) = []"
      and b: "list_all keepsEmpty es2"
    from a have i: "idle (tableRun hist initialTable)" by (rule empty_is_idle)
    from idle_run [OF i b] i show ?thesis by (simp add: idle_def view_def)
  qed
  show ?thesis
    using calls_bounded [of es s] calls_after_reset [of ords es cb h s]
      calls_after_bottom [of es sb] scroll_fires [of sa pos sh ch]
      frame_fires [of sa k sh ch h'] e
    by blast
qed

text \<open>
  The theorem at a table with one order, 200 units high in a container of 100: after
  the reset, a scroll event to offset 60 calls the callback, and the frame and the
  scroll event that follow do not call it again; a frame at offset 0 does not call it.
  After a render with no orders the frame of the earlier render is cancelled, the empty
  state is shown, and a stale frame, a scroll event and another empty render call
  nothing.
\<close>

theorem bottom_callback_once_per_cycle_witness:
  "refreshCalls (tableRun [ScrollTo 60 200 100, Frame 1 200 100 2, ScrollTo 60 200 100]
      (render [sampleOrder] True True 1 initialTable)) = 1 \<and>
   refreshCalls (tableStep (render [sampleOrder] True True 1 initialTable)
      (ScrollTo 60 200 100)) = 1 \<and>
   refreshCalls (tableStep (render [sampleOrder] True True 1 initialTable)
      (Frame 1 200 100 2)) = 0 \<and>
   refreshCalls (tableRun [ScrollTo 60 200 100, Frame 1 200 100 2, ScrollTo 60 200 100]
      (tableStep (render [sampleOrder] True True 1 initialTable) (ScrollTo 60 200 100))) = 1 \<and>
   frames (tableRun [Render [sampleOrder] True True 1, Render [] True True 2] initialTable) = [] \<and>
   view (tableRun [Render [sampleOrder] True True 1, Render [] True True 2] initialTable) =
     EmptyState \<and>
   refreshCalls (tableRun [Frame 1 200 100 3, ScrollTo 60 200 100, Render [] True True 4]
      (tableRun [Render [sampleOrder] True True 1, Render [] True True 2] initialTable)) = 0"
  using bottom_callback_once_per_cycle [of
      "[ScrollTo 60 200 100, Frame 1 200 100 2, ScrollTo 60 200 100]" initialTable
      "[sampleOrder]" True 1
      "tableStep (render [sampleOrder] True True 1 initialTable) (ScrollTo 60 200 100)"
      "render [sampleOrder] True True 1 initialTable" 60 200 100 1 2
      "[Render [sampleOrder] True True 1, Render [] True True 2]"
      "[Frame 1 200 100 3, ScrollTo 60 200 100, Render [] True True 4]"]
  by (simp add: tableRun_def render_def effect_def cancelFrame_def animate_def
      handleScroll_def reachBottom_def initialTable_def Let_def BOTTOM_THRESHOLD_def
      SCROLL_SPEED_def view_def staysInCycle_def)

subsection \<open>The factory code\<close>

lemma trim_Nil: "trim [] = []"
  by (simp add: trim_def)

lemma resolve_url:
  "\<not> whitespaceOnly (urlGet ps (js ''factoryCode'')) \<Longrightarrow>
   resolveFactoryCode (Some ps) env =
     (case firstNonEmptyTrimmed [urlGet ps (js ''factoryCode''), urlGet ps (js ''factorycode'')] of
        Some v \<Rightarrow> v
      | None \<Rightarrow> configuredDefault env)"
  by (cases "urlGet ps (js ''factoryCode'')"; cases "urlGet ps (js ''factorycode'')")
     (auto simp: resolveFactoryCode_def whitespaceOnly_def orOpt_def orElse_def
        configuredDefault_def trim_Nil Let_def split: option.splits)

lemma resolve_no_window: "resolveFactoryCode None env = configuredDefault env"
  by (auto simp: resolveFactoryCode_def orOpt_def orElse_def configuredDefault_def
      split: option.splits)

lemma display_name:
  "factoryName (loadFactoryInfo urlParams env api s) =
     (case api (resolveFactoryCode urlParams env) of
        Inr (Enveloped info) \<Rightarrow>
          (case fi_factoryName info of None \<Rightarrow> EM_DASH | Some n \<Rightarrow> if n = [] then EM_DASH else n)
      | Inr (Bare info) \<Rightarrow>
          (case fi_factoryName info of None \<Rightarrow> EM_DASH | Some n \<Rightarrow> if n = [] then EM_DASH else n)
      | _ \<Rightarrow> EM_DASH)"
  by (simp add: loadFactoryInfo_def Let_def orElse_def split: sum.splits factory_response.splits)

text \<open>
  C8, as the code has it. The URL parameters are read by their exact names,
  \<open>factoryCode\<close> first and \<open>factorycode\<close> second; another capitalisation is not read.
  Unless the \<open>factoryCode\<close> parameter is a non-empty string of white space only, the
  resolved code is the first of the two whose trimmed value is not empty, trimmed, and
  else the configured default; with no window it is the configured default. The display
  name becomes the name the lookup resolved, or the em dash when the lookup fails,
  resolves with nothing, or gives no name.
\<close>

theorem factory_code_resolution:
  "(\<not> whitespaceOnly (urlGet ps (js ''factoryCode'')) \<longrightarrow>
      resolveFactoryCode (Some ps) env =
        (case firstNonEmptyTrimmed
                [urlGet ps (js ''factoryCode''), urlGet ps (js ''factorycode'')] of
           Some v \<Rightarrow> v
         | None \<Rightarrow> configuredDefault env)) \<and>
   resolveFactoryCode None env = configuredDefault env \<and>
   factoryName (loadFactoryInfo urlParams env api s) =
     (case api (resolveFactoryCode urlParams env) of
        Inr (Enveloped info) \<Rightarrow>
          (case fi_factoryName info of None \<Rightarrow> EM_DASH | Some n \<Rightarrow> if n = [] then EM_DASH else n)
      | Inr (Bare info) \<Rightarrow>
          (case fi_factoryName info of None \<Rightarrow> EM_DASH | Some n \<Rightarrow> if n = [] then EM_DASH else n)
      | _ \<Rightarrow> EM_DASH)"
  using resolve_url [of ps env] resolve_no_window [of env] display_name [of urlParams env api s]
  by blast

text \<open>
  The theorem at a query with \<open>factorycode\<close> alone (padded with spaces), at one with
  both names, and at an empty query; and at a lookup that resolves and one that fails.
\<close>

theorem factory_code_resolution_witness:
  "resolveFactoryCode (Some [(js ''other'', js ''x''), (js ''factorycode'', js '' F2 '')]) None = js ''F2'' \<and>
   resolveFactoryCode (Some [(js ''factorycode'', js ''F2''), (js ''factoryCode'', js ''F1'')]) None = js ''F1'' \<and>
   resolveFactoryCode (Some []) (Some (js ''ENV'')) = js ''ENV'' \<and>
   resolveFactoryCode (Some []) None = js ''DEFAULT_FACTORY_CODE'' \<and>
   factoryName (loadFactoryInfo (Some []) None
      (\<lambda>c. Inr (Bare \<lparr> fi_factoryCode = Some c, fi_factoryName = Some (js ''Plant'') \<rparr>)) initialPage) = js ''Plant'' \<and>
   factoryName (loadFactoryInfo (Some []) None (\<lambda>c. Inl (Foreign NonError)) initialPage) = EM_DASH"
  using factory_code_resolution [of "[(js ''other'', js ''x''), (js ''factorycode'', js '' F2 '')]"
      None "Some []" "\<lambda>c. Inr (Bare \<lparr> fi_factoryCode = Some c, fi_factoryName = Some (js ''Plant'') \<rparr>)" initialPage]
    factory_code_resolution [of "[(js ''factorycode'', js ''F2''), (js ''factoryCode'', js ''F1'')]"
      None "Some []" "\<lambda>c. Inl (Foreign NonError)" initialPage]
  by (simp add: resolveFactoryCode_def urlGet_def orOpt_def orElse_def trim_def js_def
      isWhiteSpace_def loadFactoryInfo_def Let_def whitespaceOnly_def configuredDefault_def)

text \<open>
  C8 as stated fails: a query whose only parameter is \<open>FACTORYCODE=F1\<close> matches
  \<open>factorycode\<close> when case is ignored, so the claim resolves \<open>F1\<close>; the code resolves
  the default.
\<close>

theorem factory_code_not_case_insensitive:
  "resolveFactoryCode (Some [(js ''FACTORYCODE'', js ''F1'')]) None = js ''DEFAULT_FACTORY_CODE'' \<and>
   resolveFactoryCode (Some [(js ''FACTORYCODE'', js ''F1'')]) None \<noteq> js ''F1''"
  by (simp add: resolveFactoryCode_def urlGet_def orOpt_def orElse_def js_def)

subsection \<open>The retry loop of the HTTP client\<close>

lemma unwrapResult_typed:
  "unwrapResult nullMsg rid st result = Inl (Typed e) \<Longrightarrow> \<not> isNetworkError e"
  by (auto simp: unwrapResult_def Let_def split: if_splits)

lemma readBody_typed: "readBody opts nullMsg rid r = Inl (Typed e) \<Longrightarrow> \<not> isNetworkError e"
  by (auto simp: readBody_def unwrapResult_typed split: if_splits sum.splits)

lemma tryAttempt_network:
  "tryAttempt opts nullMsg rid outcome = Inl (Typed e) \<Longrightarrow> isNetworkError e \<Longrightarrow>
   retryCause (Typed e)"
  by (cases outcome) (auto simp: tryAttempt_def ok_def dest: readBody_typed split: if_splits)

lemma retry_has_cause:
  "tryAttempt opts nullMsg rid outcome = Inl err \<Longrightarrow> \<not> typedNotNetwork err \<Longrightarrow>
   isRetryableError err \<Longrightarrow> retryCause err"
proof (cases err)
  case (Typed e)
  assume "tryAttempt opts nullMsg rid outcome = Inl err" "\<not> typedNotNetwork err"
  with Typed show ?thesis using tryAttempt_network [of opts nullMsg rid outcome e] by simp
next
  case (Foreign x)
  assume "isRetryableError err"
  with Foreign show ?thesis by (cases x) simp_all
qed

lemma loop_done:
  "int a \<le> retry opts \<Longrightarrow> tryAttempt opts nullMsg rid (transport a) = Inr p \<Longrightarrow>
   requestLoop opts nullMsg rid transport a lastError trace = (Inr p, trace @ [Fetched a])"
  by (subst requestLoop.simps) simp

lemma loop_fail:
  "int a \<le> retry opts \<Longrightarrow> tryAttempt opts nullMsg rid (transport a) = Inl error \<Longrightarrow>
   typedNotNetwork error \<or> \<not> int a < retry opts \<or> \<not> isRetryableError error \<Longrightarrow>
   requestLoop opts nullMsg rid transport a lastError trace =
     (Inl (finalError rid error), trace @ [Fetched a])"
  by (subst requestLoop.simps) auto

lemma loop_retry:
  "tryAttempt opts nullMsg rid (transport a) = Inl error \<Longrightarrow>
   \<not> typedNotNetwork error \<Longrightarrow> int a < retry opts \<Longrightarrow> isRetryableError error \<Longrightarrow>
   requestLoop opts nullMsg rid transport a lastError trace =
     requestLoop opts nullMsg rid transport (Suc a) (Some error)
       (trace @ [Fetched a, Slept (retryDelay opts)])"
  by (subst requestLoop.simps) simp

lemma retryTrace_self: "retryTrace d a a = [Fetched a]"
  by (simp add: retryTrace_def)

lemma retryTrace_Suc:
  "Suc a \<le> n \<Longrightarrow> [Fetched a, Slept d] @ retryTrace d (Suc a) n = retryTrace d a n"
  by (simp add: retryTrace_def upt_conv_Cons)

lemma loop_trace:
  "int a \<le> retry opts \<Longrightarrow>
   \<exists>n. a \<le> n \<and> int n \<le> retry opts \<and>
       snd (requestLoop opts nullMsg rid transport a lastError trace) =
         trace @ retryTrace (retryDelay opts) a n \<and>
       (\<forall>i. a \<le> i \<and> i < n \<longrightarrow> retriedAfter opts nullMsg rid transport i)"
proof (induction opts nullMsg rid transport a lastError trace rule: requestLoop.induct)
  case (1 opts nullMsg rid transport attempt lastError trace)
  show ?case
  proof (cases "tryAttempt opts nullMsg rid (transport attempt)")
    case (Inr p)
    have "requestLoop opts nullMsg rid transport attempt lastError trace =
        (Inr p, trace @ [Fetched attempt])"
      using "1.prems" Inr by (rule loop_done)
    with "1.prems" show ?thesis
      by (intro exI [of _ attempt]) (auto simp: retryTrace_self)
  next
    case (Inl error)
    show ?thesis
    proof (cases "typedNotNetwork error \<or> \<not> int attempt < retry opts \<or> \<not> isRetryableError error")
      case True
      have "requestLoop opts nullMsg rid transport attempt lastError trace =
          (Inl (finalError rid error), trace @ [Fetched attempt])"
        using "1.prems" Inl True by (rule loop_fail)
      with "1.prems" show ?thesis
        by (intro exI [of _ attempt]) (auto simp: retryTrace_self)
    next
      case False
      then have c: "\<not> typedNotNetwork error" "int attempt < retry opts" "isRetryableError error"
        by simp_all
      then have next_ok: "int (Suc attempt) \<le> retry opts" by simp
      from c have cond: "int attempt < retry opts \<and> isRetryableError error" by simp
      from "1.IH" [OF "1.prems" Inl c(1) cond next_ok]
      obtain n where n: "Suc attempt \<le> n" "int n \<le> retry opts"
        "snd (requestLoop opts nullMsg rid transport (Suc attempt) (Some error)
               (trace @ [Fetched attempt, Slept (retryDelay opts)])) =
           (trace @ [Fetched attempt, Slept (retryDelay opts)]) @
             retryTrace (retryDelay opts) (Suc attempt) n"
        "\<forall>i. Suc attempt \<le> i \<and> i < n \<longrightarrow> retriedAfter opts nullMsg rid transport i"
        by auto
      have cause: "retriedAfter opts nullMsg rid transport attempt"
        using Inl c retry_has_cause [of opts nullMsg rid "transport attempt" error]
        by (simp add: retriedAfter_def)
      have step: "requestLoop opts nullMsg rid transport attempt lastError trace =
          requestLoop opts nullMsg rid transport (Suc attempt) (Some error)
            (trace @ [Fetched attempt, Slept (retryDelay opts)])"
        using Inl c by (rule loop_retry)
      have tr: "snd (requestLoop opts nullMsg rid transport attempt lastError trace) =
          trace @ retryTrace (retryDelay opts) attempt n"
        using step n(3) retryTrace_Suc [OF n(1), of "retryDelay opts"]
        by simp
      have all: "\<forall>i. attempt \<le> i \<and> i < n \<longrightarrow> retriedAfter opts nullMsg rid transport i"
      proof (intro allI impI)
        fix i assume "attempt \<le> i \<and> i < n"
        then consider "i = attempt" | "Suc attempt \<le> i \<and> i < n" by linarith
        then show "retriedAfter opts nullMsg rid transport i"
          using cause n(4) by cases auto
      qed
      from n(1,2) tr all show ?thesis
        by (intro exI [of _ n]) simp
    qed
  qed
qed

lemma retries_retryTrace: "retries (trace0 @ retryTrace d a n) = length (filter isFetched trace0) + (n - a)"
  by (induction n) (auto simp: retries_def retryTrace_def)

lemma request_trace:
  "url \<noteq> [] \<Longrightarrow> 0 \<le> retry opts \<Longrightarrow>
   snd (request opts nullMsg rid url transport) =
     retryTrace (retryDelay opts) 0 (retries (snd (request opts nullMsg rid url transport))) \<and>
   int (retries (snd (request opts nullMsg rid url transport))) \<le> retry opts \<and>
   (\<forall>i. i < retries (snd (request opts nullMsg rid url transport)) \<longrightarrow>
      retriedAfter opts nullMsg rid transport i)"
proof -
  assume url: "url \<noteq> []" and r: "0 \<le> retry opts"
  then have "int 0 \<le> retry opts" by simp
  from loop_trace [OF this, of nullMsg rid transport None "[]"]
  obtain n where n: "int n \<le> retry opts"
    "snd (requestLoop opts nullMsg rid transport 0 None []) = retryTrace (retryDelay opts) 0 n"
    "\<forall>i. i < n \<longrightarrow> retriedAfter opts nullMsg rid transport i"
    by auto
  have "retries (retryTrace (retryDelay opts) 0 n) = n"
    using retries_retryTrace [of "[]" "retryDelay opts" 0 n] by simp
  with n url show ?thesis by (simp add: request_def)
qed

lemma request_4xx:
  "url \<noteq> [] \<Longrightarrow> 0 \<le> retry opts \<Longrightarrow> transport 0 = Inr r \<Longrightarrow>
   400 \<le> resp_status r \<Longrightarrow> resp_status r < 500 \<Longrightarrow>
   request opts nullMsg rid url transport =
     (Inl \<lparr> fe_message = RequestError (resp_status r) (statusText r), fe_code = None,
            fe_status = Some (resp_status r), fe_requestId = rid, isNetworkError = False \<rparr>,
      [Fetched 0])"
proof -
  assume url: "url \<noteq> []" and r: "0 \<le> retry opts" and t: "transport 0 = Inr r"
    and st: "400 \<le> resp_status r" "resp_status r < 500"
  let ?e = "\<lparr> fe_message = RequestError (resp_status r) (statusText r), fe_code = None,
            fe_status = Some (resp_status r), fe_requestId = rid, isNetworkError = False \<rparr>"
  have a: "tryAttempt opts nullMsg rid (transport 0) = Inl (Typed ?e)"
    using t st by (simp add: tryAttempt_def ok_def)
  have "requestLoop opts nullMsg rid transport 0 None [] = (Inl (finalError rid (Typed ?e)), [] @ [Fetched 0])"
    using r a by (intro loop_fail) simp_all
  with url show ?thesis by (simp add: request_def)
qed

lemma request_envelope:
  "url \<noteq> [] \<Longrightarrow> 0 \<le> retry opts \<Longrightarrow> unwrap opts \<Longrightarrow> transport 0 = Inr r \<Longrightarrow> ok r \<Longrightarrow>
   contentType r = Some ct \<Longrightarrow> str_includes ct (js ''application/json'') \<Longrightarrow>
   body_json r = Inr (JsObject fs) \<Longrightarrow> \<not> isSuccess (map_of fs (js ''code'')) \<Longrightarrow>
   request opts nullMsg rid url transport =
     (Inl \<lparr> fe_message =
              (case map_of fs (js ''msg'') of
                 None \<Rightarrow> ApiErrorCode (map_of fs (js ''code''))
               | Some m \<Rightarrow> if json_truthy m then ApiMsg m
                           else ApiErrorCode (map_of fs (js ''code''))),
            fe_code = map_of fs (js ''code''), fe_status = Some (resp_status r),
            fe_requestId = rid, isNetworkError = False \<rparr>,
      [Fetched 0])"
proof -
  assume url: "url \<noteq> []" and r: "0 \<le> retry opts" and u: "unwrap opts"
    and t: "transport 0 = Inr r" and k: "ok r"
    and ct: "contentType r = Some ct" "str_includes ct (js ''application/json'')"
    and b: "body_json r = Inr (JsObject fs)" and c: "\<not> isSuccess (map_of fs (js ''code''))"
  let ?e = "\<lparr> fe_message =
              (case map_of fs (js ''msg'') of
                 None \<Rightarrow> ApiErrorCode (map_of fs (js ''code''))
               | Some m \<Rightarrow> if json_truthy m then ApiMsg m
                           else ApiErrorCode (map_of fs (js ''code''))),
            fe_code = map_of fs (js ''code''), fe_status = Some (resp_status r),
            fe_requestId = rid, isNetworkError = False \<rparr>"
  have a: "tryAttempt opts nullMsg rid (transport 0) = Inl (Typed ?e)"
    using t k u ct b c by (simp add: tryAttempt_def readBody_def unwrapResult_def Let_def)
  have "requestLoop opts nullMsg rid transport 0 None [] = (Inl (finalError rid (Typed ?e)), [] @ [Fetched 0])"
    using r a by (intro loop_fail) simp_all
  with url show ?thesis by (simp add: request_def)
qed

lemma attempt_5xx:
  "500 \<le> resp_status r \<Longrightarrow>
   tryAttempt opts nullMsg rid (Inr r) =
     Inl (Typed \<lparr> fe_message = ServerError (resp_status r) (statusText r), fe_code = None,
                  fe_status = Some (resp_status r), fe_requestId = rid, isNetworkError = True \<rparr>)"
  by (simp add: tryAttempt_def ok_def)

lemma request_two_500_then_200:
  "url \<noteq> [] \<Longrightarrow> transport 0 = Inr r0 \<Longrightarrow> 500 \<le> resp_status r0 \<Longrightarrow>
   transport 1 = Inr r1 \<Longrightarrow> 500 \<le> resp_status r1 \<Longrightarrow>
   transport 2 = Inr r2 \<Longrightarrow> ok r2 \<Longrightarrow>
   contentType r2 = Some ct \<Longrightarrow> str_includes ct (js ''application/json'') \<Longrightarrow>
   body_json r2 = Inr (JsObject fs) \<Longrightarrow> isSuccess (map_of fs (js ''code'')) \<Longrightarrow>
   request defaultOptions nullMsg rid url transport =
     (Inr (Data (map_of fs (js ''data''))),
      [Fetched 0, Slept 1000, Fetched 1, Slept 1000, Fetched 2])"
proof -
  assume url: "url \<noteq> []" and t0: "transport 0 = Inr r0" "500 \<le> resp_status r0"
    and t1: "transport 1 = Inr r1" "500 \<le> resp_status r1"
    and t2: "transport 2 = Inr r2" "ok r2" "contentType r2 = Some ct"
      "str_includes ct (js ''application/json'')" "body_json r2 = Inr (JsObject fs)"
      "isSuccess (map_of fs (js ''code''))"
  let ?o = defaultOptions
  let ?e0 = "Typed \<lparr> fe_message = ServerError (resp_status r0) (statusText r0), fe_code = None,
                  fe_status = Some (resp_status r0), fe_requestId = rid, isNetworkError = True \<rparr>"
  let ?e1 = "Typed \<lparr> fe_message = ServerError (resp_status r1) (statusText r1), fe_code = None,
                  fe_status = Some (resp_status r1), fe_requestId = rid, isNetworkError = True \<rparr>"
  have a0: "tryAttempt ?o nullMsg rid (transport 0) = Inl ?e0"
    using t0 by (simp add: attempt_5xx)
  have a1: "tryAttempt ?o nullMsg rid (transport (Suc 0)) = Inl ?e1"
    using t1 by (simp add: attempt_5xx)
  have a2: "tryAttempt ?o nullMsg rid (transport (Suc (Suc 0))) = Inr (Data (map_of fs (js ''data'')))"
    using t2 by (simp add: tryAttempt_def readBody_def unwrapResult_def Let_def defaultOptions_def
        numeral_2_eq_2)
  have s0: "requestLoop ?o nullMsg rid transport 0 None [] =
      requestLoop ?o nullMsg rid transport (Suc 0) (Some ?e0) ([] @ [Fetched 0, Slept (retryDelay ?o)])"
    using a0 by (intro loop_retry) (simp_all add: defaultOptions_def)
  have s1: "requestLoop ?o nullMsg rid transport (Suc 0) (Some ?e0) ([] @ [Fetched 0, Slept (retryDelay ?o)]) =
      requestLoop ?o nullMsg rid transport (Suc (Suc 0)) (Some ?e1)
        (([] @ [Fetched 0, Slept (retryDelay ?o)]) @ [Fetched (Suc 0), Slept (retryDelay ?o)])"
    using a1 by (intro loop_retry) (simp_all add: defaultOptions_def)
  have s2: "requestLoop ?o nullMsg rid transport (Suc (Suc 0)) (Some ?e1)
        (([] @ [Fetched 0, Slept (retryDelay ?o)]) @ [Fetched (Suc 0), Slept (retryDelay ?o)]) =
      (Inr (Data (map_of fs (js ''data''))),
       (([] @ [Fetched 0, Slept (retryDelay ?o)]) @ [Fetched (Suc 0), Slept (retryDelay ?o)]) @
         [Fetched (Suc (Suc 0))])"
    using a2 by (intro loop_done) (simp_all add: defaultOptions_def)
  from url s0 s1 s2 show ?thesis
    by (simp add: request_def defaultOptions_def numeral_2_eq_2)
qed

text \<open>
  The retry policy, as far as it holds. A request with a URL and a retry budget that is
  not negative makes its attempts in order, sleeps \<open>retryDelay\<close> before each retry and
  makes at most \<open>retry\<close> retries, 3 and 1000 ms by default; every attempt a retry
  follows threw the client's server error (a response whose status is neither 2xx nor
  4xx) or an \<open>Error\<close> whose message matches a network or timeout pattern. A 4xx
  response, and an envelope whose code is not a success code, raise the typed error at
  the first attempt, with no retry. Two responses of status 500 or more followed by a
  200 with a success envelope give the envelope's data, after two retries.
\<close>

theorem request_retry_policy:
  "(url \<noteq> [] \<and> 0 \<le> retry opts \<longrightarrow>
      snd (request opts nullMsg rid url transport) =
        retryTrace (retryDelay opts) 0 (retries (snd (request opts nullMsg rid url transport))) \<and>
      int (retries (snd (request opts nullMsg rid url transport))) \<le> retry opts \<and>
      (\<forall>i. i < retries (snd (request opts nullMsg rid url transport)) \<longrightarrow>
         retriedAfter opts nullMsg rid transport i)) \<and>
   retry defaultOptions = 3 \<and> retryDelay defaultOptions = 1000 \<and>
   (url \<noteq> [] \<and> 0 \<le> retry opts \<and> t4 0 = Inr r4 \<and>
    400 \<le> resp_status r4 \<and> resp_status r4 < 500 \<longrightarrow>
      request opts nullMsg rid url t4 =
        (Inl \<lparr> fe_message = RequestError (resp_status r4) (statusText r4), fe_code = None,
               fe_status = Some (resp_status r4), fe_requestId = rid,
               isNetworkError = False \<rparr>,
         [Fetched 0])) \<and>
   (url \<noteq> [] \<and> 0 \<le> retry opts \<and> unwrap opts \<and> te 0 = Inr re \<and> ok re \<and>
    contentType re = Some cte \<and> str_includes cte (js ''application/json'') \<and>
    body_json re = Inr (JsObject fe) \<and> \<not> isSuccess (map_of fe (js ''code'')) \<longrightarrow>
      request opts nullMsg rid url te =
        (Inl \<lparr> fe_message =
                 (case map_of fe (js ''msg'') of
                    None \<Rightarrow> ApiErrorCode (map_of fe (js ''code''))
                  | Some m \<Rightarrow> if json_truthy m then ApiMsg m
                              else ApiErrorCode (map_of fe (js ''code''))),
               fe_code = map_of fe (js ''code''), fe_status = Some (resp_status re),
               fe_requestId = rid, isNetworkError = False \<rparr>,
         [Fetched 0])) \<and>
   (url \<noteq> [] \<and> t5 0 = Inr r0 \<and> 500 \<le> resp_status r0 \<and>
    t5 1 = Inr r1 \<and> 500 \<le> resp_status r1 \<and>
    t5 2 = Inr r2 \<and> ok r2 \<and> contentType r2 = Some ct \<and>
    str_includes ct (js ''application/json'') \<and>
    body_json r2 = Inr (JsObject fs) \<and> isSuccess (map_of fs (js ''code'')) \<longrightarrow>
      request defaultOptions nullMsg rid url t5 =
        (Inr (Data (map_of fs (js ''data''))),
         [Fetched 0, Slept 1000, Fetched 1, Slept 1000, Fetched 2]))"
  using request_trace [of url opts nullMsg rid transport]
    request_4xx [of url opts t4 r4 nullMsg rid]
    request_envelope [of url opts te re cte fe nullMsg rid]
    request_two_500_then_200 [of url t5 r0 r1 r2 ct fs nullMsg rid]
  by (simp add: defaultOptions_def)

text \<open>
  The policy at four transports: one that always answers 500 (three retries, then the
  server error), one that answers 404, one that answers an envelope with code 500, and
  one that answers 500 twice and then succeeds.
\<close>

theorem request_retry_policy_witness:
  "request defaultOptions [] (js ''req_1'') (js ''/api/x'') (\<lambda>i. Inr (sampleStatus 500)) =
     (Inl \<lparr> fe_message = ServerError 500 [], fe_code = None, fe_status = Some 500,
            fe_requestId = js ''req_1'', isNetworkError = True \<rparr>,
      [Fetched 0, Slept 1000, Fetched 1, Slept 1000, Fetched 2, Slept 1000, Fetched 3]) \<and>
   request defaultOptions [] (js ''req_1'') (js ''/api/x'') (\<lambda>i. Inr (sampleStatus 404)) =
     (Inl \<lparr> fe_message = RequestError 404 [], fe_code = None, fe_status = Some 404,
            fe_requestId = js ''req_1'', isNetworkError = False \<rparr>,
      [Fetched 0]) \<and>
   request defaultOptions [] (js ''req_1'') (js ''/api/x'') (\<lambda>i. Inr sampleEnvelopeError) =
     (Inl \<lparr> fe_message = ApiMsg (JsString (js ''boom'')), fe_code = Some (JsNumber 500),
            fe_status = Some 200, fe_requestId = js ''req_1'', isNetworkError = False \<rparr>,
      [Fetched 0]) \<and>
   request defaultOptions [] (js ''req_1'') (js ''/api/x'')
       (\<lambda>i. if i < 2 then Inr (sampleStatus 500) else Inr sampleOk) =
     (Inr (Data (Some (JsString (js ''payload'')))),
      [Fetched 0, Slept 1000, Fetched 1, Slept 1000, Fetched 2])"
  using request_retry_policy [of "js ''/api/x''" defaultOptions "[]" "js ''req_1''"
      "\<lambda>i. Inr (sampleStatus 500)"
      "\<lambda>i. Inr (sampleStatus 404)" "sampleStatus 404"
      "\<lambda>i. Inr sampleEnvelopeError" sampleEnvelopeError "js ''application/json''"
      "[(js ''code'', JsNumber 500), (js ''msg'', JsString (js ''boom''))]"
      "\<lambda>i. if i < 2 then Inr (sampleStatus 500) else Inr sampleOk"
      "sampleStatus 500" "sampleStatus 500" sampleOk "js ''application/json''"
      "[(js ''code'', JsNumber 200), (js ''msg'', JsString (js ''ok'')),
        (js ''data'', JsString (js ''payload''))]"]
  by (simp add: request_def requestLoop.simps defaultOptions_def tryAttempt_def readBody_def
      unwrapResult_def isSuccess_def ok_def messageMatches_def toLowerCase_def js_def
      sampleOk_def sampleStatus_def sampleEnvelopeError_def retries_def retryTrace_def
      retriedAfter_def)

text \<open>
  C7, where the code leaves the claim. The claim has retries for server-side (5xx)
  responses and for network and timeout failures, and for nothing else. In the code a
  thrown error is retried only when its message contains one of the patterns of
  \<open>isRetryableError\<close>: the abort that the client's own timeout causes carries a
  message such as \<open>signal is aborted without reason\<close>, which contains none, so a
  timeout is never retried and surfaces after one attempt. And every response that is
  not ok and not 4xx is thrown as a retryable server error: a 304 is retried.
\<close>

theorem request_retry_slips:
  "request defaultOptions [] (js ''req_1'') (js ''/api/x'')
       (\<lambda>i. Inl (JsError (js ''AbortError'') (js ''signal is aborted without reason''))) =
     (Inl \<lparr> fe_message = RequestTimeout, fe_code = None, fe_status = None,
            fe_requestId = js ''req_1'', isNetworkError = False \<rparr>,
      [Fetched 0]) \<and>
   request defaultOptions [] (js ''req_1'') (js ''/api/x'')
       (\<lambda>i. if i = 0 then Inr (sampleStatus 304) else Inr sampleOk) =
     (Inr (Data (Some (JsString (js ''payload'')))), [Fetched 0, Slept 1000, Fetched 1])"
  by (simp add: request_def requestLoop.simps defaultOptions_def tryAttempt_def readBody_def
      unwrapResult_def isSuccess_def ok_def messageMatches_def toLowerCase_def js_def
      sampleOk_def sampleStatus_def sampleEnvelopeError_def retries_def retryTrace_def
      retriedAfter_def)

end
